theory Spec2Isabelle
  imports Complex_Main "HOL-Library.Multiset"
begin

section \<open>Python values used by the budget tracker\<close>

text \<open>
  A Python \<open>str\<close> is a sequence of Unicode code points; \<open>len\<close> counts code points.
  Text that comes from a client is therefore a list of code points. Field names and the
  messages the program itself writes are ASCII and are kept as HOL strings.
\<close>

type_synonym pystr = "nat list"

definition str :: "string \<Rightarrow> pystr" where
  "str s = map of_char s"

text \<open>The code points that \<open>str.isspace\<close> accepts, which are the ones \<open>str.strip()\<close> removes.\<close>

definition isspace :: "nat \<Rightarrow> bool" where
  "isspace c \<longleftrightarrow>
     (9 \<le> c \<and> c \<le> 13) \<or> (28 \<le> c \<and> c \<le> 32) \<or> c = 133 \<or> c = 160 \<or> c = 5760 \<or>
     (8192 \<le> c \<and> c \<le> 8202) \<or> c = 8232 \<or> c = 8233 \<or> c = 8239 \<or> c = 8287 \<or> c = 12288"

definition strip :: "pystr \<Rightarrow> pystr" where
  "strip s = rev (dropWhile isspace (rev (dropWhile isspace s)))"

text \<open>
  A text field of a serializer (\<open>serializers.CharField\<close>, with its default
  \<open>trim_whitespace\<close>): the value of the request body is stripped first. A value that is
  empty after stripping is \<open>blank\<close>: an error, or the empty string where the field allows
  blank. Otherwise every validator of the field runs on the stripped value and their messages
  are collected: the ones the field was declared with, then the two every text field has,
  against NUL characters and against surrogate code points. The field delivers the stripped
  value.
\<close>

definition max_length :: "nat \<Rightarrow> string \<Rightarrow> pystr \<Rightarrow> string list" where
  "max_length n msg v = (if n < length v then [msg] else [])"

definition min_length :: "nat \<Rightarrow> string \<Rightarrow> pystr \<Rightarrow> string list" where
  "min_length n msg v = (if length v < n then [msg] else [])"

definition prohibit_null_characters :: "pystr \<Rightarrow> string list" where
  "prohibit_null_characters v =
     (if 0 \<in> set v then [''Null characters are not allowed.''] else [])"

definition prohibit_surrogate_characters :: "pystr \<Rightarrow> string list" where
  "prohibit_surrogate_characters v =
     (if list_ex (\<lambda>c. 55296 \<le> c \<and> c \<le> 57343) v
      then [''Surrogate characters are not allowed.''] else [])"

definition CharField ::
  "bool \<Rightarrow> string \<Rightarrow> (pystr \<Rightarrow> string list) \<Rightarrow> pystr \<Rightarrow> string list + pystr" where
  "CharField allow_blank blank_msg validators data =
     (let v = strip data;
          errors = validators v @ prohibit_null_characters v @ prohibit_surrogate_characters v
      in if v = [] then (if allow_blank then Inr [] else Inl [blank_msg])
         else if errors \<noteq> [] then Inl errors
         else Inr v)"

text \<open>
  A finite \<open>decimal.Decimal\<close>, as \<open>as_tuple()\<close> shows it: a sign, a coefficient and an
  exponent. The digit tuple of Python is the decimal expansion of the coefficient, so its
  length is \<open>ndigits\<close> of the coefficient (one digit for zero).
\<close>

record decimal =
  negative :: bool
  coefficient :: nat
  exponent :: int

fun ndigits :: "nat \<Rightarrow> nat" where
  "ndigits n = (if n < 10 then 1 else Suc (ndigits (n div 10)))"

definition dec_value :: "decimal \<Rightarrow> rat" where
  "dec_value d =
     (if negative d then - 1 else 1) *
     (if 0 \<le> exponent d then of_nat (coefficient d) * 10 ^ nat (exponent d)
      else of_nat (coefficient d) / 10 ^ nat (- exponent d))"

text \<open>
  Python compares a \<open>Decimal\<close> with a \<open>float\<close> exactly, as rational numbers. The two float
  literals of the source are the IEEE-754 doubles nearest to the written decimals: for
  \<open>0.01\<close> the double \<open>5764607523034235 / 2^59\<close>, for \<open>999999999.99\<close> the double
  \<open>4194303999958057 / 2^22\<close>.
\<close>

definition float_0_01 :: rat where
  "float_0_01 = 5764607523034235 / 2 ^ 59"

definition float_999999999_99 :: rat where
  "float_999999999_99 = 4194303999958057 / 2 ^ 22"

section \<open>budgets/models.py: the field \<open>Budget.initial_amount\<close>\<close>

text \<open>
  \<open>models.DecimalField(max_digits=10, decimal_places=2, validators=[MinValueValidator(0.01)])\<close>.
  The model serializer builds its decimal field from these three declarations: the
  precision check, the quantisation to \<open>decimal_places\<close>, then the minimum validator.
\<close>

definition max_digits :: nat where
  "max_digits = 10"

definition decimal_places :: nat where
  "decimal_places = 2"

definition validate_precision :: "decimal \<Rightarrow> string + decimal" where
  "validate_precision v =
     (let len = ndigits (coefficient v);
          e = exponent v;
          total_digits = (if 0 \<le> e then len + nat e else if nat (- e) < len then len else nat (- e));
          whole_digits = (if 0 \<le> e then len + nat e else if nat (- e) < len then len - nat (- e) else 0);
          places = (if 0 \<le> e then 0 else nat (- e))
      in if max_digits < total_digits then
           Inl ''Ensure that there are no more than 10 digits in total.''
         else if decimal_places < places then
           Inl ''Ensure that there are no more than 2 decimal places.''
         else if max_digits - decimal_places < whole_digits then
           Inl ''Ensure that there are no more than 8 digits before the decimal point.''
         else Inr v)"

text \<open>
  \<open>quantize\<close> brings a value that passed \<open>validate_precision\<close> to exactly
  \<open>decimal_places\<close> places. Such a value has at most that many places, so no rounding
  happens: the coefficient is padded with zeros.
\<close>

definition quantize :: "decimal \<Rightarrow> decimal" where
  "quantize v =
     v\<lparr>coefficient := coefficient v * 10 ^ nat (exponent v + int decimal_places),
       exponent := - int decimal_places\<rparr>"

definition MinValueValidator :: "rat \<Rightarrow> decimal \<Rightarrow> string + decimal" where
  "MinValueValidator limit_value v =
     (if dec_value v < limit_value then
        Inl ''Ensure this value is greater than or equal to 0.01.''
      else Inr v)"

definition initial_amount_field :: "decimal \<Rightarrow> string + decimal" where
  "initial_amount_field d =
     (case validate_precision d of
        Inl e \<Rightarrow> Inl e
      | Inr v \<Rightarrow> MinValueValidator float_0_01 (quantize v))"

section \<open>budgets/serializers.py: \<open>BudgetSerializer\<close>\<close>

definition validate_initial_amount :: "decimal \<Rightarrow> string + decimal" where
  "validate_initial_amount v =
     (if dec_value v \<le> 0 then Inl ''Initial amount must be greater than 0.''
      else if float_999999999_99 < dec_value v then Inl ''Initial amount is too large.''
      else Inr v)"

text \<open>
  The serializer runs the field first and hands its result to \<open>validate_initial_amount\<close>;
  the first error ends the validation of the field.
\<close>

definition run_initial_amount :: "decimal \<Rightarrow> string + decimal" where
  "run_initial_amount d =
     (case initial_amount_field d of
        Inl e \<Rightarrow> Inl e
      | Inr v \<Rightarrow> validate_initial_amount v)"


subsection \<open>The title and the date\<close>

text \<open>
  \<open>Budget.title = models.CharField(max_length=255)\<close>: the serializer's text field for it
  does not allow blank and has the length validator, with the messages of \<open>extra_kwargs\<close>.
  \<open>Budget.description = models.TextField(blank=True)\<close>: a text field that allows blank and
  has no validator of its own.
\<close>

definition title_max_length :: nat where
  "title_max_length = 255"

definition title_field :: "pystr \<Rightarrow> string list + pystr" where
  "title_field data =
     CharField False ''Title cannot be blank.''
       (max_length title_max_length ''Title must be at most 255 characters.'') data"

definition description_field :: "pystr \<Rightarrow> string list + pystr" where
  "description_field data = CharField True ''This field may not be blank.'' (\<lambda>v. []) data"

definition validate_title :: "pystr \<Rightarrow> string + pystr" where
  "validate_title v =
     (if v = [] \<or> strip v = [] then Inl ''Title cannot be empty.''
      else if 255 < length v then Inl ''Title must be at most 255 characters.''
      else Inr (strip v))"

text \<open>
  The serializer hands the value the field delivers to \<open>validate_<field>\<close>, whose
  \<open>ValidationError\<close> is the field's one error.
\<close>

definition one_error :: "string + 'a \<Rightarrow> string list + 'a" where
  "one_error r = (case r of Inl e \<Rightarrow> Inl [e] | Inr v \<Rightarrow> Inr v)"

definition then_validate ::
  "('a \<Rightarrow> string + 'a) \<Rightarrow> string list + 'a \<Rightarrow> string list + 'a" where
  "then_validate validate r =
     (case r of Inl errors \<Rightarrow> Inl errors | Inr v \<Rightarrow> one_error (validate v))"

definition run_title :: "pystr \<Rightarrow> string list + pystr" where
  "run_title data = then_validate validate_title (title_field data)"

text \<open>
  A date is its proleptic ordinal (\<open>date.toordinal()\<close>), which orders dates as Python and
  the database do. Every \<open>datetime.date\<close> is truthy, so the test of \<open>validate_date\<close> never
  fires on a parsed date.
\<close>

definition date_truthy :: "nat \<Rightarrow> bool" where
  "date_truthy d = True"

definition validate_date :: "nat \<Rightarrow> string + nat" where
  "validate_date v = (if \<not> date_truthy v then Inl ''Date is required.'' else Inr v)"

section \<open>The tables\<close>

text \<open>\<open>budgets/models.py\<close>: a row of \<open>budgets\<close>. \<open>user\<close> holds the owner's primary key.\<close>

record budget =
  budget_id :: nat
  user :: nat
  title :: pystr
  description :: pystr
  date :: nat
  initial_amount :: decimal
  created_at :: nat
  updated_at :: nat

text \<open>\<open>users/models.py\<close>: a row of \<open>users\<close> and a row of \<open>token_blacklist\<close>.\<close>

record user_row =
  user_id :: nat
  username :: pystr
  email :: pystr
  password :: pystr
  first_name :: pystr
  last_name :: pystr

record blacklist_row =
  blacklist_id :: nat
  token :: pystr
  blacklisted_at :: nat

text \<open>
  The database: the three tables in insertion order, and for each the last value of its
  automatic primary key.
\<close>

record database =
  users :: "user_row list"
  budgets :: "budget list"
  token_blacklist :: "blacklist_row list"
  user_seq :: nat
  budget_seq :: nat
  blacklist_seq :: nat

section \<open>Requests and responses\<close>

datatype http_status =
    HTTP_200_OK
  | HTTP_201_CREATED
  | HTTP_204_NO_CONTENT
  | HTTP_400_BAD_REQUEST
  | HTTP_401_UNAUTHORIZED
  | HTTP_403_FORBIDDEN
  | HTTP_404_NOT_FOUND
  | HTTP_500_INTERNAL_SERVER_ERROR

fun status_code :: "http_status \<Rightarrow> nat" where
  "status_code HTTP_200_OK = 200"
| "status_code HTTP_201_CREATED = 201"
| "status_code HTTP_204_NO_CONTENT = 204"
| "status_code HTTP_400_BAD_REQUEST = 400"
| "status_code HTTP_401_UNAUTHORIZED = 401"
| "status_code HTTP_403_FORBIDDEN = 403"
| "status_code HTTP_404_NOT_FOUND = 404"
| "status_code HTTP_500_INTERNAL_SERVER_ERROR = 500"

text \<open>
  A response body: nothing, a \<open>detail\<close> message, the field-keyed error lists of a failed
  validation, a flat object of text fields, one budget, a page of budgets with the total
  count, or a plain list of budgets.
\<close>

datatype body =
    NoBody
  | Detail string
  | Errors "(string \<times> string list) list"
  | Fields "(string \<times> pystr) list"
  | BudgetBody budget
  | BudgetPage nat "budget list"
  | BudgetList "budget list"

record response =
  status :: http_status
  data :: body

text \<open>
  A key of the request body is absent, or holds something the field cannot parse, or holds
  a value of the field's type.
\<close>

datatype 'a field_input = Absent | Unparsable | Parsed 'a

text \<open>
  \<open>permission_classes = [IsAuthenticated]\<close>: the authenticated user of a request is the
  primary key the access token resolves to, or \<open>None\<close> when the request carries no valid
  access token; such a request is answered 401 before the view runs. Every view under the
  permission therefore begins with the case distinction on the request's user.
\<close>

definition not_authenticated :: response where
  "not_authenticated =
     \<lparr>status = HTTP_401_UNAUTHORIZED,
      data = Detail ''Authentication credentials were not provided.''\<rparr>"

definition not_found :: response where
  "not_found = \<lparr>status = HTTP_404_NOT_FOUND, data = Detail ''Not found.''\<rparr>"


section \<open>budgets/serializers.py: validation of a request body\<close>

text \<open>
  The body of a budget request, key by key. \<open>fields\<close> lists eight keys; four of them are in
  \<open>read_only_fields\<close> and are never read from the body, whatever the client sends there.
\<close>

record budget_data =
  data_id :: "nat field_input"
  data_user :: "nat field_input"
  data_title :: "pystr field_input"
  data_description :: "pystr field_input"
  data_date :: "nat field_input"
  data_initial_amount :: "decimal field_input"
  data_created_at :: "nat field_input"
  data_updated_at :: "nat field_input"

text \<open>
  One writable field: an absent key is an error when the field is required and the update
  is not partial, and is skipped otherwise; an unparsable value is the \<open>invalid\<close> error; a
  parsed value goes through the field's validators and the serializer's \<open>validate_<field>\<close>.
\<close>

definition run_field ::
  "bool \<Rightarrow> bool \<Rightarrow> string \<Rightarrow> string \<Rightarrow> ('a \<Rightarrow> string list + 'a) \<Rightarrow> 'a field_input \<Rightarrow>
   string list + 'a option" where
  "run_field partial required required_msg invalid_msg validate inp =
     (case inp of
        Absent \<Rightarrow> if required \<and> \<not> partial then Inl [required_msg] else Inr None
      | Unparsable \<Rightarrow> Inl [invalid_msg]
      | Parsed x \<Rightarrow> (case validate x of Inl errors \<Rightarrow> Inl errors | Inr v \<Rightarrow> Inr (Some v)))"

definition field_errors :: "string \<Rightarrow> string list + 'a \<Rightarrow> (string \<times> string list) list" where
  "field_errors name r = (case r of Inl e \<Rightarrow> [(name, e)] | Inr _ \<Rightarrow> [])"

definition field_value :: "string list + 'a option \<Rightarrow> 'a option" where
  "field_value r = (case r of Inl _ \<Rightarrow> None | Inr v \<Rightarrow> v)"

text \<open>The validated data: the writable fields that were present, after validation.\<close>

record validated_data =
  valid_title :: "pystr option"
  valid_description :: "pystr option"
  valid_date :: "nat option"
  valid_initial_amount :: "decimal option"

definition is_valid :: "bool \<Rightarrow> budget_data \<Rightarrow> (string \<times> string list) list + validated_data" where
  "is_valid partial d =
     (let t = run_field partial True ''Title is required.'' ''Not a valid string.''
                run_title (data_title d);
          c = run_field partial False ''This field is required.'' ''Not a valid string.''
                description_field (data_description d);
          a = run_field partial True ''Date is required.'' ''Enter a valid date (YYYY-MM-DD).''
                (\<lambda>x. one_error (validate_date x)) (data_date d);
          m = run_field partial True ''Initial amount is required.'' ''Enter a valid decimal number.''
                (\<lambda>x. one_error (run_initial_amount x)) (data_initial_amount d);
          errors = field_errors ''title'' t @ field_errors ''description'' c @
                   field_errors ''date'' a @ field_errors ''initial_amount'' m
      in if errors \<noteq> [] then Inl errors
         else Inr \<lparr>valid_title = field_value t, valid_description = field_value c,
                   valid_date = field_value a, valid_initial_amount = field_value m\<rparr>)"

section \<open>budgets/views.py: \<open>BudgetViewSet\<close>\<close>

definition get_queryset :: "nat \<Rightarrow> database \<Rightarrow> budget list" where
  "get_queryset request_user db = filter (\<lambda>b. user b = request_user) (budgets db)"

text \<open>
  \<open>get_object\<close> of the generic view looks the primary key up in \<open>get_queryset()\<close> and
  raises \<open>Http404\<close> when no row of the queryset has it.
\<close>

definition get_object :: "nat \<Rightarrow> nat \<Rightarrow> database \<Rightarrow> budget option" where
  "get_object request_user pk db =
     (case filter (\<lambda>b. budget_id b = pk) (get_queryset request_user db) of
        [] \<Rightarrow> None
      | b # _ \<Rightarrow> Some b)"

text \<open>
  \<open>Meta.ordering = ['-date', '-created_at']\<close>: a row comes before another when its date is
  later, or the dates are equal and it was created later. Where two rows agree on both, the
  order is the database's choice: \<open>tie a b\<close> says whether it puts \<open>a\<close> before \<open>b\<close>. The sort
  is an insertion sort.
\<close>

definition precedes :: "budget \<Rightarrow> budget \<Rightarrow> bool" where
  "precedes a b \<longleftrightarrow> date b < date a \<or> (date a = date b \<and> created_at b \<le> created_at a)"

definition goes_before :: "(budget \<Rightarrow> budget \<Rightarrow> bool) \<Rightarrow> budget \<Rightarrow> budget \<Rightarrow> bool" where
  "goes_before tie a b \<longleftrightarrow>
     date b < date a \<or> (date a = date b \<and> created_at b < created_at a) \<or>
     (date a = date b \<and> created_at a = created_at b \<and> tie a b)"

fun insert_ordered :: "(budget \<Rightarrow> budget \<Rightarrow> bool) \<Rightarrow> budget \<Rightarrow> budget list \<Rightarrow> budget list" where
  "insert_ordered tie x [] = [x]"
| "insert_ordered tie x (y # ys) =
     (if goes_before tie x y then x # y # ys else y # insert_ordered tie x ys)"

definition meta_ordering :: "(budget \<Rightarrow> budget \<Rightarrow> bool) \<Rightarrow> budget list \<Rightarrow> budget list" where
  "meta_ordering tie rows = foldr (insert_ordered tie) rows []"

text \<open>
  The \<open>page\<close> parameter of the query string: absent, the word \<open>last\<close>, a number, or anything
  else. The paginator has at least one page, also for no rows; a page that is not a number,
  is below 1 or beyond the last page is the paginator's \<open>InvalidPage\<close>, which is \<open>None\<close> here
  and answered 404. A valid page number is at least 1.
\<close>

datatype page_query = PageAbsent | PageLast | PageNumber int | PageNotANumber

definition num_pages :: "nat \<Rightarrow> nat \<Rightarrow> nat" where
  "num_pages page_size n_rows = (max 1 n_rows + page_size - 1) div page_size"

definition page_number :: "nat \<Rightarrow> nat \<Rightarrow> page_query \<Rightarrow> nat option" where
  "page_number page_size n_rows q =
     (case q of
        PageAbsent \<Rightarrow> Some 1
      | PageLast \<Rightarrow> Some (num_pages page_size n_rows)
      | PageNumber n \<Rightarrow>
          if n < 1 \<or> int (num_pages page_size n_rows) < n then None else Some (nat n)
      | PageNotANumber \<Rightarrow> None)"

definition paginate :: "nat \<Rightarrow> page_query \<Rightarrow> budget list \<Rightarrow> budget list option" where
  "paginate page_size q rows =
     (case page_number page_size (length rows) q of
        None \<Rightarrow> None
      | Some n \<Rightarrow> Some (take page_size (drop ((n - 1) * page_size) rows)))"

definition invalid_page :: response where
  "invalid_page = \<lparr>status = HTTP_404_NOT_FOUND, data = Detail ''Invalid page.''\<rparr>"

text \<open>
  \<open>list\<close>: the ordered queryset, cut to the page asked for. The page size is the project's
  pagination setting; with no page size the view answers the whole list.
\<close>

definition list_budgets ::
  "(budget \<Rightarrow> budget \<Rightarrow> bool) \<Rightarrow> nat \<Rightarrow> page_query \<Rightarrow> nat option \<Rightarrow> database \<Rightarrow> response" where
  "list_budgets tie page_size page request_user db =
     (case request_user of
        None \<Rightarrow> not_authenticated
      | Some u \<Rightarrow>
          (let rows = meta_ordering tie (get_queryset u db)
           in if page_size = 0 then \<lparr>status = HTTP_200_OK, data = BudgetList rows\<rparr>
              else (case paginate page_size page rows of
                      None \<Rightarrow> invalid_page
                    | Some shown \<Rightarrow>
                        \<lparr>status = HTTP_200_OK, data = BudgetPage (length rows) shown\<rparr>)))"

definition retrieve :: "nat option \<Rightarrow> nat \<Rightarrow> database \<Rightarrow> response" where
  "retrieve request_user pk db =
     (case request_user of
        None \<Rightarrow> not_authenticated
      | Some u \<Rightarrow>
          (case get_object u pk db of
             None \<Rightarrow> not_found
           | Some b \<Rightarrow> \<lparr>status = HTTP_200_OK, data = BudgetBody b\<rparr>))"

text \<open>
  \<open>perform_create\<close>: \<open>serializer.save(user=self.request.user)\<close> adds the requesting user to
  the validated data and inserts the row. A missing description is the field's empty
  default; the three required fields are always present in the validated data of a create;
  the two timestamps are set by the server.
\<close>

definition perform_create :: "nat \<Rightarrow> nat \<Rightarrow> validated_data \<Rightarrow> database \<Rightarrow> budget \<times> database" where
  "perform_create request_user now v db =
     (let b = \<lparr>budget_id = Suc (budget_seq db),
               user = request_user,
               title = (case valid_title v of Some t \<Rightarrow> t | None \<Rightarrow> []),
               description = (case valid_description v of Some c \<Rightarrow> c | None \<Rightarrow> []),
               date = (case valid_date v of Some a \<Rightarrow> a | None \<Rightarrow> 0),
               initial_amount = (case valid_initial_amount v of Some m \<Rightarrow> m
                                 | None \<Rightarrow> \<lparr>negative = False, coefficient = 0, exponent = 0\<rparr>),
               created_at = now,
               updated_at = now\<rparr>
      in (b, db\<lparr>budgets := budgets db @ [b], budget_seq := Suc (budget_seq db)\<rparr>))"

definition create :: "nat option \<Rightarrow> nat \<Rightarrow> budget_data \<Rightarrow> database \<Rightarrow> response \<times> database" where
  "create request_user now d db =
     (case request_user of
        None \<Rightarrow> (not_authenticated, db)
      | Some u \<Rightarrow>
          (case is_valid False d of
             Inl errors \<Rightarrow> (\<lparr>status = HTTP_400_BAD_REQUEST, data = Errors errors\<rparr>, db)
           | Inr v \<Rightarrow>
               (let (b, db') = perform_create u now v db
                in (\<lparr>status = HTTP_201_CREATED, data = BudgetBody b\<rparr>, db'))))"

text \<open>
  \<open>perform_update\<close>: \<open>serializer.save(user=self.request.user)\<close> sets on the instance every
  validated field and the requesting user as owner, and saves the row under its primary key.
\<close>

definition perform_update :: "nat \<Rightarrow> nat \<Rightarrow> budget \<Rightarrow> validated_data \<Rightarrow> database \<Rightarrow> budget \<times> database" where
  "perform_update request_user now instance v db =
     (let b = instance
            \<lparr>user := request_user,
             title := (case valid_title v of Some t \<Rightarrow> t | None \<Rightarrow> title instance),
             description := (case valid_description v of Some c \<Rightarrow> c | None \<Rightarrow> description instance),
             date := (case valid_date v of Some a \<Rightarrow> a | None \<Rightarrow> date instance),
             initial_amount := (case valid_initial_amount v of Some m \<Rightarrow> m
                                | None \<Rightarrow> initial_amount instance),
             updated_at := now\<rparr>
      in (b, db\<lparr>budgets := map (\<lambda>r. if budget_id r = budget_id instance then b else r) (budgets db)\<rparr>))"

definition update :: "bool \<Rightarrow> nat option \<Rightarrow> nat \<Rightarrow> nat \<Rightarrow> budget_data \<Rightarrow> database \<Rightarrow> response \<times> database" where
  "update partial request_user now pk d db =
     (case request_user of
        None \<Rightarrow> (not_authenticated, db)
      | Some u \<Rightarrow>
          (case get_object u pk db of
             None \<Rightarrow> (not_found, db)
           | Some instance \<Rightarrow>
               (case is_valid partial d of
                  Inl errors \<Rightarrow> (\<lparr>status = HTTP_400_BAD_REQUEST, data = Errors errors\<rparr>, db)
                | Inr v \<Rightarrow>
                    (let (b, db') = perform_update u now instance v db
                     in (\<lparr>status = HTTP_200_OK, data = BudgetBody b\<rparr>, db')))))"

definition destroy :: "nat option \<Rightarrow> nat \<Rightarrow> database \<Rightarrow> response \<times> database" where
  "destroy request_user pk db =
     (case request_user of
        None \<Rightarrow> (not_authenticated, db)
      | Some u \<Rightarrow>
          (case get_object u pk db of
             None \<Rightarrow> (not_found, db)
           | Some instance \<Rightarrow>
               (\<lparr>status = HTTP_204_NO_CONTENT, data = NoBody\<rparr>,
                db\<lparr>budgets := filter (\<lambda>r. budget_id r \<noteq> budget_id instance) (budgets db)\<rparr>)))"


section \<open>users/serializers.py: \<open>UserRegistrationSerializer\<close>\<close>

text \<open>
  What the program takes from \<open>django.contrib.auth\<close> and does not define itself: the
  validators that \<open>AbstractUser\<close> and \<open>EmailField\<close> put on the two model fields (each gives
  the list of its error messages for a stripped value, given the table), the password policy
  \<open>validate_password\<close> of the project settings, and what \<open>create_user\<close> does to its
  arguments: it normalises the username and the e-mail address and stores
  \<open>make_password\<close> of the password.
\<close>

record auth_library =
  username_validators :: "user_row list \<Rightarrow> pystr \<Rightarrow> string list"
  email_validators :: "user_row list \<Rightarrow> pystr \<Rightarrow> string list"
  validate_password :: "pystr \<Rightarrow> string list"
  normalize_username :: "pystr \<Rightarrow> pystr"
  normalize_email :: "pystr \<Rightarrow> pystr"
  make_password :: "pystr \<Rightarrow> pystr"

record registration_data =
  data_username :: "pystr field_input"
  data_email :: "pystr field_input"
  data_password :: "pystr field_input"
  data_password_confirm :: "pystr field_input"

text \<open>
  A field of the registration: required; its value goes through the text field (stripped,
  not blank, the validators), then through the serializer's \<open>validate_<field>\<close>.
\<close>

definition run_char_field ::
  "string \<Rightarrow> string \<Rightarrow> (pystr \<Rightarrow> string list) \<Rightarrow> (pystr \<Rightarrow> string + pystr) \<Rightarrow>
   pystr field_input \<Rightarrow> string list + pystr" where
  "run_char_field required_msg blank_msg validators validate inp =
     (case inp of
        Absent \<Rightarrow> Inl [required_msg]
      | Unparsable \<Rightarrow> Inl [''Not a valid string.'']
      | Parsed x \<Rightarrow> then_validate validate (CharField False blank_msg validators x))"

definition validate_username :: "database \<Rightarrow> pystr \<Rightarrow> string + pystr" where
  "validate_username db v =
     (if v \<in> set (map username (users db)) then Inl ''This username is already taken.''
      else Inr v)"

definition validate_email :: "database \<Rightarrow> pystr \<Rightarrow> string + pystr" where
  "validate_email db v =
     (if v \<in> set (map email (users db)) then Inl ''This email is already registered.''
      else Inr v)"

text \<open>
  The object-level \<open>validate\<close> sees the four validated values; it runs only when no field
  failed.
\<close>

record registration =
  reg_username :: pystr
  reg_email :: pystr
  reg_password :: pystr
  reg_password_confirm :: pystr

definition validate :: "registration \<Rightarrow> (string \<times> string list) list + registration" where
  "validate d =
     (if reg_password d \<noteq> reg_password_confirm d then
        Inl [(''password_confirm'', [''Passwords do not match.''])]
      else Inr d)"

definition registration_is_valid ::
  "auth_library \<Rightarrow> database \<Rightarrow> registration_data \<Rightarrow>
   (string \<times> string list) list + registration" where
  "registration_is_valid lib db d =
     (let n = run_char_field ''Username is required.'' ''Username cannot be blank.''
                (username_validators lib (users db)) (validate_username db) (data_username d);
          e = run_char_field ''Email is required.'' ''Email cannot be blank.''
                (email_validators lib (users db)) (validate_email db) (data_email d);
          p = run_char_field ''Password is required.'' ''Password cannot be blank.''
                (\<lambda>x. validate_password lib x @
                      min_length 8 ''Password must be at least 8 characters long.'' x)
                Inr (data_password d);
          c = run_char_field ''Password confirmation is required.''
                ''Password confirmation cannot be blank.''
                (min_length 8 ''Password must be at least 8 characters long.'')
                Inr (data_password_confirm d);
          errors = field_errors ''username'' n @ field_errors ''email'' e @
                   field_errors ''password'' p @ field_errors ''password_confirm'' c
      in case (n, e, p, c) of
           (Inr n', Inr e', Inr p', Inr c') \<Rightarrow>
             validate \<lparr>reg_username = n', reg_email = e', reg_password = p',
                       reg_password_confirm = c'\<rparr>
         | _ \<Rightarrow> Inl errors)"

text \<open>
  \<open>create\<close> drops \<open>password_confirm\<close> and calls \<open>User.objects.create_user\<close> with the rest.
  Both \<open>username\<close> and \<open>email\<close> are unique columns of \<open>users\<close>: the insert of a row that
  repeats either raises \<open>IntegrityError\<close> and leaves the table as it was.
\<close>

datatype database_error = IntegrityError

definition create_user ::
  "auth_library \<Rightarrow> registration \<Rightarrow> database \<Rightarrow> database_error + user_row \<times> database" where
  "create_user lib d db =
     (let u = \<lparr>user_id = Suc (user_seq db),
               username = normalize_username lib (reg_username d),
               email = normalize_email lib (reg_email d),
               password = make_password lib (reg_password d),
               first_name = [],
               last_name = []\<rparr>
      in if username u \<in> set (map username (users db)) \<or> email u \<in> set (map email (users db))
         then Inl IntegrityError
         else Inr (u, db\<lparr>users := users db @ [u], user_seq := Suc (user_seq db)\<rparr>))"

text \<open>
  \<open>serializer.data\<close> after \<open>save()\<close>: the fields of \<open>Meta.fields\<close> that are not
  \<open>write_only\<close>, read from the saved user.
\<close>

definition registration_representation :: "user_row \<Rightarrow> (string \<times> pystr) list" where
  "registration_representation u = [(''username'', username u), (''email'', email u)]"

section \<open>users/views.py: \<open>UserViewSet\<close>\<close>

text \<open>
  \<open>register\<close> has \<open>permission_classes=[AllowAny]\<close>: no user is asked for. The view handles
  no exception of \<open>serializer.save()\<close>, so an \<open>IntegrityError\<close> is the server's error 500.
\<close>

definition server_error :: response where
  "server_error = \<lparr>status = HTTP_500_INTERNAL_SERVER_ERROR, data = NoBody\<rparr>"

definition register :: "auth_library \<Rightarrow> registration_data \<Rightarrow> database \<Rightarrow> response \<times> database" where
  "register lib d db =
     (case registration_is_valid lib db d of
        Inr v \<Rightarrow>
          (case create_user lib v db of
             Inr (u, db') \<Rightarrow>
               (\<lparr>status = HTTP_201_CREATED, data = Fields (registration_representation u)\<rparr>, db')
           | Inl IntegrityError \<Rightarrow> (server_error, db))
      | Inl errors \<Rightarrow> (\<lparr>status = HTTP_400_BAD_REQUEST, data = Errors errors\<rparr>, db))"

text \<open>
  What the program takes from \<open>rest_framework_simplejwt\<close>: \<open>RefreshToken(s)\<close> decodes and
  verifies a token string (signature, type, expiry) and raises \<open>TokenError\<close> with a message
  when it is not a valid refresh token; \<open>str(token)\<close> encodes the token again. A decoded
  token carries the primary key of the user it was issued to and its expiry.
\<close>

record refresh_token =
  token_user_id :: nat
  token_exp :: nat
  token_jti :: pystr

record token_library =
  RefreshToken :: "pystr \<Rightarrow> string + refresh_token"
  token_str :: "refresh_token \<Rightarrow> pystr"
  access_token :: "refresh_token \<Rightarrow> pystr"

text \<open>
  \<open>logout\<close>: the view set's \<open>IsAuthenticated\<close> applies. \<open>not refresh_token\<close> holds for a
  missing key and for the empty string. Every exception of the \<open>try\<close> block is answered 400.
\<close>

definition falsy :: "pystr option \<Rightarrow> bool" where
  "falsy v \<longleftrightarrow> v = None \<or> v = Some []"

definition logout ::
  "token_library \<Rightarrow> nat option \<Rightarrow> nat \<Rightarrow> pystr option \<Rightarrow> database \<Rightarrow> response \<times> database" where
  "logout lib request_user now refresh_token db =
     (case request_user of
        None \<Rightarrow> (not_authenticated, db)
      | Some u \<Rightarrow>
          (if falsy refresh_token then
             (\<lparr>status = HTTP_400_BAD_REQUEST, data = Detail ''Refresh token is required.''\<rparr>, db)
           else
             (case RefreshToken lib (case refresh_token of Some s \<Rightarrow> s | None \<Rightarrow> []) of
                Inl e \<Rightarrow>
                  (\<lparr>status = HTTP_400_BAD_REQUEST, data = Detail (''Invalid token: '' @ e)\<rparr>, db)
              | Inr t \<Rightarrow>
                  (\<lparr>status = HTTP_200_OK, data = Detail ''Successfully logged out.''\<rparr>,
                   db\<lparr>token_blacklist := token_blacklist db @
                         [\<lparr>blacklist_id = Suc (blacklist_seq db), token = token_str lib t,
                           blacklisted_at = now\<rparr>],
                       blacklist_seq := Suc (blacklist_seq db)\<rparr>))))"

text \<open>
  \<open>api/urls.py\<close> routes \<open>api/token/refresh/\<close> to the library's \<open>TokenRefreshView\<close>, which
  verifies the refresh token with \<open>RefreshToken\<close> and answers 401 or a new access token.
  The view is given the database as every view is.
\<close>

definition token_refresh :: "token_library \<Rightarrow> pystr \<Rightarrow> database \<Rightarrow> response" where
  "token_refresh lib refresh db =
     (case RefreshToken lib refresh of
        Inl e \<Rightarrow> \<lparr>status = HTTP_401_UNAUTHORIZED, data = Detail e\<rparr>
      | Inr t \<Rightarrow> \<lparr>status = HTTP_200_OK, data = Fields [(''access'', access_token lib t)]\<rparr>)"

section \<open>health_check\<close>

text \<open>
  Modelled from the spec: the view \<open>health_check.views.health_check\<close>, which
  \<open>health_check/urls.py\<close> routes \<open>up\<close> to, is not among the source files. The spec gives it:
  the health check returns \<open>{"status": "ok"}\<close> with status 200 and asks for no
  authentication.
\<close>

definition health_check :: "nat option \<Rightarrow> response" where
  "health_check request_user = \<lparr>status = HTTP_200_OK, data = Fields [(''status'', str ''ok'')]\<rparr>"

text \<open>
  \<open>health_check/urls.py\<close> has the single pattern \<open>path('up', views.health_check)\<close>, and
  \<open>api/urls.py\<close> includes it under the empty prefix. The other patterns of \<open>api/urls.py\<close>
  all begin with \<open>api/\<close>. A request path is matched without its leading slash.
\<close>

datatype route = Api string | HealthCheck

definition resolve :: "string \<Rightarrow> route option" where
  "resolve path =
     (if take 4 path = ''api/'' then Some (Api (drop 4 path))
      else if path = ''up'' then Some HealthCheck
      else None)"

definition get_up :: "string \<Rightarrow> nat option \<Rightarrow> response option" where
  "get_up path request_user =
     (case resolve (drop 1 path) of
        Some HealthCheck \<Rightarrow> Some (health_check request_user)
      | _ \<Rightarrow> None)"

section \<open>Predicates of the statements\<close>

text \<open>
  The primary key of \<open>budgets\<close>: no two rows share an id, and no id is beyond the last value
  of the sequence.
\<close>

definition primary_keys_ok :: "database \<Rightarrow> bool" where
  "primary_keys_ok db \<longleftrightarrow>
     distinct (map budget_id (budgets db)) \<and>
     list_all (\<lambda>b. budget_id b \<le> budget_seq db) (budgets db)"

text \<open>
  A request that fails validation: the answer is 400 with a non-empty map of errors, and the
  database is left as it was.
\<close>

definition rejected :: "response \<times> database \<Rightarrow> database \<Rightarrow> bool" where
  "rejected result db \<longleftrightarrow>
     status (fst result) = HTTP_400_BAD_REQUEST \<and>
     (case data (fst result) of Errors errors \<Rightarrow> errors \<noteq> [] | _ \<Rightarrow> False) \<and>
     snd result = db"

text \<open>A text that passes the two validators every text field has.\<close>

definition clean :: "pystr \<Rightarrow> bool" where
  "clean v \<longleftrightarrow> prohibit_null_characters v = [] \<and> prohibit_surrogate_characters v = []"

text \<open>The budgets that a list response shows: its page, or its whole list.\<close>

definition listed :: "body \<Rightarrow> budget list" where
  "listed b = (case b of BudgetPage n rows \<Rightarrow> rows | BudgetList rows \<Rightarrow> rows | _ \<Rightarrow> [])"

text \<open>
  Every stored amount has exactly two decimal places and at most ten digits.
\<close>

definition amounts_ok :: "database \<Rightarrow> bool" where
  "amounts_ok db \<longleftrightarrow>
     list_all (\<lambda>b. exponent (initial_amount b) = - 2 \<and>
                   ndigits (coefficient (initial_amount b)) \<le> 10) (budgets db)"

text \<open>
  A request that fails validation with an error under a given key.
\<close>

definition rejected_on :: "string \<Rightarrow> response \<times> database \<Rightarrow> database \<Rightarrow> bool" where
  "rejected_on name result db \<longleftrightarrow>
     status (fst result) = HTTP_400_BAD_REQUEST \<and>
     (case data (fst result) of Errors errors \<Rightarrow> name \<in> set (map fst errors) | _ \<Rightarrow> False) \<and>
     snd result = db"

section \<open>Example data\<close>

text \<open>
  A small database in the shape of the fixtures of \<open>budgets/tests.py\<close>: two users, and
  four budgets of which the second belongs to the second user; a partial update and a
  creation that both name the second user as owner.
\<close>

definition example_budget :: "nat \<Rightarrow> nat \<Rightarrow> nat \<Rightarrow> nat \<Rightarrow> budget" where
  "example_budget i u d c =
     \<lparr>budget_id = i, user = u, title = str ''Existing Budget'', description = [],
      date = d, initial_amount = \<lparr>negative = False, coefficient = 300000, exponent = - 2\<rparr>,
      created_at = c, updated_at = c\<rparr>"

definition example_user :: "nat \<Rightarrow> string \<Rightarrow> user_row" where
  "example_user i n =
     \<lparr>user_id = i, username = str n, email = str n @ str ''@example.com'',
      password = str ''pbkdf2_sha256$'' @ str n, first_name = [], last_name = []\<rparr>"

definition example_db :: database where
  "example_db =
     \<lparr>users = [example_user 1 ''testuser'', example_user 2 ''testuser2''],
      budgets = [example_budget 1 1 10 100, example_budget 2 2 20 200,
                 example_budget 3 1 20 300, example_budget 4 1 20 250],
      token_blacklist = [], user_seq = 2, budget_seq = 4, blacklist_seq = 0\<rparr>"

definition example_patch :: budget_data where
  "example_patch =
     \<lparr>data_id = Absent, data_user = Parsed 2, data_title = Parsed (str ''Hacked Budget''),
      data_description = Absent, data_date = Absent, data_initial_amount = Absent,
      data_created_at = Absent, data_updated_at = Absent\<rparr>"

definition example_post :: budget_data where
  "example_post =
     \<lparr>data_id = Absent, data_user = Parsed 2, data_title = Parsed (str ''Monthly Budget''),
      data_description = Parsed (str ''My monthly budget for expenses''),
      data_date = Parsed 739662,
      data_initial_amount = Parsed \<lparr>negative = False, coefficient = 500000, exponent = - 2\<rparr>,
      data_created_at = Absent, data_updated_at = Absent\<rparr>"

text \<open>A database that lists the later id first among rows with equal keys.\<close>

definition example_tie :: "budget \<Rightarrow> budget \<Rightarrow> bool" where
  "example_tie a b \<longleftrightarrow> budget_id b < budget_id a"


text \<open>
  Instances of the two libraries: a token library that knows one refresh token, issued to
  the second user, and an authentication library with a username length limit, an e-mail
  check, one forbidden password and a toy hash; and the registration bodies of
  \<open>users/tests.py\<close>.
\<close>

definition example_token_library :: token_library where
  "example_token_library =
     \<lparr>RefreshToken = (\<lambda>s. if s = str ''refresh.of.user2''
          then Inr \<lparr>token_user_id = 2, token_exp = 86400, token_jti = str ''a1''\<rparr>
          else Inl ''Token is invalid or expired''),
      token_str = (\<lambda>t. str ''refresh.of.user'' @ (if token_user_id t = 2 then str ''2'' else str ''1'')),
      access_token = (\<lambda>t. str ''access.of.user'' @ (if token_user_id t = 2 then str ''2'' else str ''1''))\<rparr>"

definition example_auth_library :: auth_library where
  "example_auth_library =
     \<lparr>username_validators = (\<lambda>rows v. if 150 < length v
          then [''Ensure this field has no more than 150 characters.''] else []),
      email_validators = (\<lambda>rows v. if 64 \<in> set v then [] else [''Enter a valid email address.'']),
      validate_password = (\<lambda>p. if p = str ''password'' then [''This password is too common.''] else []),
      normalize_username = (\<lambda>v. v),
      normalize_email = (\<lambda>v. v),
      make_password = (\<lambda>p. str ''pbkdf2_sha256$'' @ rev p)\<rparr>"

definition example_registration :: "string \<Rightarrow> string \<Rightarrow> string \<Rightarrow> string \<Rightarrow> registration_data" where
  "example_registration n e p c =
     \<lparr>data_username = Parsed (str n), data_email = Parsed (str e),
      data_password = Parsed (str p), data_password_confirm = Parsed (str c)\<rparr>"

section \<open>Properties of the amount validation\<close>

declare ndigits.simps [simp del]


lemma ndigits_upper: "n < 10 ^ ndigits n"
proof (induction n rule: ndigits.induct)
  case (1 n)
  show ?case
  proof (cases "n < 10")
    case True
    then show ?thesis by (simp add: ndigits.simps [of n])
  next
    case False
    with 1 have "n div 10 < 10 ^ ndigits (n div 10)" by simp
    then have "n < 10 * 10 ^ ndigits (n div 10)" by simp
    with False show ?thesis by (simp add: ndigits.simps [of n])
  qed
qed

lemma ndigits_le: "n < 10 ^ k \<Longrightarrow> 0 < k \<Longrightarrow> ndigits n \<le> k"
proof (induction n arbitrary: k rule: ndigits.induct)
  case (1 n)
  show ?case
  proof (cases "n < 10")
    case True
    with 1 show ?thesis by (simp add: ndigits.simps [of n])
  next
    case False
    obtain j where k: "k = Suc j" using \<open>0 < k\<close> by (cases k) auto
    have "j \<noteq> 0" using False \<open>n < 10 ^ k\<close> k by (cases j) auto
    moreover have "n div 10 < 10 ^ j" using \<open>n < 10 ^ k\<close> k by (simp add: less_mult_imp_div_less)
    ultimately have "ndigits (n div 10) \<le> j" using 1 False by simp
    with False k show ?thesis by (simp add: ndigits.simps [of n])
  qed
qed

lemma ndigits_pos: "0 < ndigits n"
  by (simp add: ndigits.simps [of n])

lemma ndigits_pad: "ndigits c + k \<le> m \<Longrightarrow> ndigits (c * 10 ^ k) \<le> m"
proof -
  assume a: "ndigits c + k \<le> m"
  have "c * 10 ^ k < 10 ^ ndigits c * 10 ^ k" using ndigits_upper [of c] by simp
  also have "\<dots> = 10 ^ (ndigits c + k)" by (simp add: power_add)
  also have "\<dots> \<le> 10 ^ m" using a by (simp add: power_increasing)
  finally have "c * 10 ^ k < 10 ^ m" .
  moreover have "0 < m" using a ndigits_pos [of c] by simp
  ultimately show ?thesis by (rule ndigits_le)
qed


lemma validate_precision_Inr:
  assumes "validate_precision d = Inr v"
  shows "v = d" and "- 2 \<le> exponent d"
    and "ndigits (coefficient d) + nat (exponent d + 2) \<le> 10"
  using assms
  by (auto simp: validate_precision_def Let_def max_digits_def decimal_places_def
      split: if_splits)

lemma validate_precision_places:
  "exponent d < - 2 \<Longrightarrow> \<exists>e. validate_precision d = Inl e"
  by (auto simp: validate_precision_def Let_def max_digits_def decimal_places_def)

lemma dec_value_quantize:
  "- 2 \<le> exponent d \<Longrightarrow> dec_value (quantize d) = dec_value d"
proof -
  assume a: "- 2 \<le> exponent d"
  consider "0 \<le> exponent d" | "exponent d = - 1" | "exponent d = - 2"
    using a by linarith
  then show ?thesis
  proof cases
    case 1
    then have "nat (exponent d + 2) = nat (exponent d) + 2" by simp
    with 1 show ?thesis
      by (simp add: dec_value_def quantize_def decimal_places_def power_add)
  next
    case 2
    then show ?thesis by (simp add: dec_value_def quantize_def decimal_places_def)
  next
    case 3
    then show ?thesis by (simp add: dec_value_def quantize_def decimal_places_def)
  qed
qed


lemma run_initial_amount_precision:
  "(exponent d < - 2 \<longrightarrow> (\<exists>e. run_initial_amount d = Inl e)) \<and>
   (\<forall>v. run_initial_amount d = Inr v \<longrightarrow>
      exponent v = - 2 \<and> ndigits (coefficient v) \<le> 10 \<and> dec_value v = dec_value d)"
proof (intro conjI allI impI)
  assume "exponent d < - 2"
  then obtain e where "validate_precision d = Inl e"
    using validate_precision_places by blast
  then show "\<exists>e. run_initial_amount d = Inl e"
    by (simp add: run_initial_amount_def initial_amount_field_def)
next
  fix v
  assume r: "run_initial_amount d = Inr v"
  then obtain w where w: "validate_precision d = Inr w"
    by (cases "validate_precision d") (auto simp: run_initial_amount_def initial_amount_field_def)
  have v: "v = quantize d"
    using r w validate_precision_Inr(1) [OF w]
    by (auto simp: run_initial_amount_def initial_amount_field_def MinValueValidator_def
        validate_initial_amount_def split: if_splits)
  show "exponent v = - 2" by (simp add: v quantize_def decimal_places_def)
  show "ndigits (coefficient v) \<le> 10"
    using ndigits_pad [OF validate_precision_Inr(3) [OF w]]
    by (simp add: v quantize_def decimal_places_def)
  show "dec_value v = dec_value d"
    using dec_value_quantize [OF validate_precision_Inr(2) [OF w]] by (simp add: v)
qed

text \<open>
  C5. One cent, \<open>Decimal('0.01')\<close>, is a positive amount below the cap with two decimal
  places, and \<open>validate_initial_amount\<close> accepts it; the validation of the field as a whole
  rejects it, because \<open>MinValueValidator(0.01)\<close> compares it with the double \<open>0.01\<close>, which
  is greater than one hundredth.
\<close>

theorem initial_amount_one_cent_rejected:
  "run_initial_amount \<lparr>negative = False, coefficient = 1, exponent = - 2\<rparr> =
     Inl ''Ensure this value is greater than or equal to 0.01.'' \<and>
   validate_initial_amount \<lparr>negative = False, coefficient = 1, exponent = - 2\<rparr> =
     Inr \<lparr>negative = False, coefficient = 1, exponent = - 2\<rparr>"
  by (simp add: run_initial_amount_def initial_amount_field_def validate_precision_def
      MinValueValidator_def quantize_def dec_value_def float_0_01_def float_999999999_99_def
      validate_initial_amount_def max_digits_def decimal_places_def ndigits.simps)

section \<open>Properties of the title validation\<close>

lemma rev_dropWhile_takeWhile:
  "rev (dropWhile P (rev xs)) @ rev (takeWhile P (rev xs)) = xs"
proof -
  have "rev (dropWhile P (rev xs)) @ rev (takeWhile P (rev xs)) =
        rev (takeWhile P (rev xs) @ dropWhile P (rev xs))"
    by (simp only: rev_append)
  also have "\<dots> = rev (rev xs)" by (simp only: takeWhile_dropWhile_id)
  finally show ?thesis by simp
qed

lemma strip_decomp:
  "\<exists>l r. v = l @ strip v @ r \<and> (\<forall>c\<in>set l. isspace c) \<and> (\<forall>c\<in>set r. isspace c)"
proof -
  define w where "w = dropWhile isspace v"
  define l where "l = takeWhile isspace v"
  define r where "r = rev (takeWhile isspace (rev w))"
  have w: "w = strip v @ r"
    using rev_dropWhile_takeWhile [of isspace w] by (simp add: strip_def r_def w_def)
  have "v = l @ w" by (simp add: l_def w_def)
  with w have "v = l @ strip v @ r" by simp
  moreover have "\<forall>c\<in>set l. isspace c" by (auto simp: l_def dest: set_takeWhileD)
  moreover have "\<forall>c\<in>set r. isspace c" by (auto simp: r_def dest: set_takeWhileD)
  ultimately show ?thesis by blast
qed



lemma validate_title_Inr: "validate_title v = Inr t \<Longrightarrow> t = strip v \<and> strip v \<noteq> [] \<and> length v \<le> 255"
  by (auto simp: validate_title_def split: if_splits)

section \<open>Properties of the budget views\<close>

lemma get_object_other_user:
  assumes "b \<in> set (budgets db)" and "user b \<noteq> a"
    and "distinct (map budget_id (budgets db))"
  shows "get_object a (budget_id b) db = None"
proof -
  have "inj_on budget_id (set (budgets db))"
    using assms(3) by (simp add: distinct_map)
  then have "\<And>r. r \<in> set (budgets db) \<Longrightarrow> budget_id r = budget_id b \<Longrightarrow> r = b"
    using assms(1) by (auto dest: inj_onD)
  then have "filter (\<lambda>r. budget_id r = budget_id b) (get_queryset a db) = []"
    using assms(2) by (auto simp: get_queryset_def filter_empty_conv)
  then show ?thesis by (simp add: get_object_def)
qed

text \<open>
  C1. When a budget of the table belongs to a user other than the requesting one, the
  requesting user's retrieve, update (full or partial, whatever the body) and delete of
  its id are answered \<open>not_found\<close>, which is 404 and not 403, and change nothing: the lookup
  runs over \<open>get_queryset\<close>, which holds exactly the rows the requesting user owns.
  Primary keys are unique in the table.
\<close>

theorem cross_user_access_not_found:
  assumes "b \<in> set (budgets db)" and "user b \<noteq> a"
    and "distinct (map budget_id (budgets db))"
  shows "retrieve (Some a) (budget_id b) db = not_found \<and>
         update partial (Some a) now (budget_id b) d db = (not_found, db) \<and>
         destroy (Some a) (budget_id b) db = (not_found, db) \<and>
         status not_found = HTTP_404_NOT_FOUND \<and> status not_found \<noteq> HTTP_403_FORBIDDEN \<and>
         set (get_queryset a db) = {r \<in> set (budgets db). user r = a} \<and>
         b \<notin> set (get_queryset a db)"
proof -
  note g = get_object_other_user [OF assms]
  have "retrieve (Some a) (budget_id b) db = not_found" by (simp add: retrieve_def g)
  moreover have "update partial (Some a) now (budget_id b) d db = (not_found, db)"
    by (simp add: update_def g)
  moreover have "destroy (Some a) (budget_id b) db = (not_found, db)"
    by (simp add: destroy_def g)
  moreover have "status not_found = HTTP_404_NOT_FOUND \<and> status not_found \<noteq> HTTP_403_FORBIDDEN"
    by (simp add: not_found_def)
  moreover have "set (get_queryset a db) = {r \<in> set (budgets db). user r = a}"
    by (auto simp: get_queryset_def)
  moreover have "b \<notin> set (get_queryset a db)"
    using assms(2) by (simp add: get_queryset_def)
  ultimately show ?thesis by blast
qed

lemma example_db_budgets:
  "budgets example_db = [example_budget 1 1 10 100, example_budget 2 2 20 200,
                 example_budget 3 1 20 300, example_budget 4 1 20 250]"
  by (simp add: example_db_def)

theorem cross_user_access_not_found_witness:
  "retrieve (Some 1) 2 example_db = not_found \<and>
   update True (Some 1) 500 2 example_patch example_db = (not_found, example_db) \<and>
   destroy (Some 1) 2 example_db = (not_found, example_db) \<and>
   retrieve (Some 2) 2 example_db =
     \<lparr>status = HTTP_200_OK, data = BudgetBody (example_budget 2 2 20 200)\<rparr>"
proof -
  have m: "example_budget 2 2 20 200 \<in> set (budgets example_db)"
    by (simp add: example_db_budgets)
  have u: "user (example_budget 2 2 20 200) \<noteq> 1" by (simp add: example_budget_def)
  have i: "distinct (map budget_id (budgets example_db))"
    by (simp add: example_db_budgets example_budget_def)
  have own: "retrieve (Some 2) 2 example_db =
     \<lparr>status = HTTP_200_OK, data = BudgetBody (example_budget 2 2 20 200)\<rparr>"
    by (simp add: retrieve_def get_object_def get_queryset_def example_db_budgets
        example_budget_def)
  have "budget_id (example_budget 2 2 20 200) = 2" by (simp add: example_budget_def)
  then show ?thesis
    using cross_user_access_not_found [OF m u i, of True 500 example_patch] own by simp
qed


lemma get_object_Some:
  "get_object u pk db = Some b \<Longrightarrow> b \<in> set (budgets db) \<and> user b = u \<and> budget_id b = pk"
proof -
  assume a: "get_object u pk db = Some b"
  then obtain rest where "filter (\<lambda>r. budget_id r = pk) (get_queryset u db) = b # rest"
    by (auto simp: get_object_def split: list.splits)
  then have "b \<in> set (filter (\<lambda>r. budget_id r = pk) (get_queryset u db))" by simp
  then show ?thesis by (auto simp: get_queryset_def)
qed

lemma is_valid_ignores_user: "is_valid partial (d\<lparr>data_user := x\<rparr>) = is_valid partial d"
  by (simp add: is_valid_def)

lemma perform_create_row:
  "user (fst (perform_create u now v db)) = u"
  "budgets (snd (perform_create u now v db)) = budgets db @ [fst (perform_create u now v db)]"
  by (simp_all add: perform_create_def Let_def)

lemma perform_update_row:
  "user (fst (perform_update u now inst v db)) = u"
  "budget_id (fst (perform_update u now inst v db)) = budget_id inst"
  "budgets (snd (perform_update u now inst v db)) =
     map (\<lambda>r. if budget_id r = budget_id inst then fst (perform_update u now inst v db) else r)
       (budgets db)"
  by (simp_all add: perform_update_def Let_def)

text \<open>
  C2. A successful create by user \<open>u\<close> appends one row, owned by \<open>u\<close>; a successful update
  by \<open>u\<close> leaves under the updated id one row, owned by \<open>u\<close>. Both answers are the same
  whatever the body holds under the key \<open>user\<close>.
\<close>

theorem owner_is_requesting_user:
  "(\<forall>r db'. create (Some u) now d db = (r, db') \<and> status r = HTTP_201_CREATED \<longrightarrow>
      (\<exists>b. data r = BudgetBody b \<and> user b = u \<and> budgets db' = budgets db @ [b])) \<and>
   (\<forall>r db'. update partial (Some u) now pk d db = (r, db') \<and> status r = HTTP_200_OK \<longrightarrow>
      (\<exists>b. data r = BudgetBody b \<and> user b = u \<and> budget_id b = pk \<and> b \<in> set (budgets db') \<and>
           (\<forall>row\<in>set (budgets db'). budget_id row = pk \<longrightarrow> row = b))) \<and>
   create (Some u) now (d\<lparr>data_user := x\<rparr>) db = create (Some u) now d db \<and>
   update partial (Some u) now pk (d\<lparr>data_user := x\<rparr>) db = update partial (Some u) now pk d db"
proof (intro conjI allI impI)
  fix r db'
  assume a: "create (Some u) now d db = (r, db') \<and> status r = HTTP_201_CREATED"
  show "\<exists>b. data r = BudgetBody b \<and> user b = u \<and> budgets db' = budgets db @ [b]"
  proof (cases "is_valid False d")
    case (Inl errors)
    with a show ?thesis by (auto simp: create_def)
  next
    case (Inr v)
    with a have "r = \<lparr>status = HTTP_201_CREATED, data = BudgetBody (fst (perform_create u now v db))\<rparr>"
      and "db' = snd (perform_create u now v db)"
      by (auto simp: create_def split_beta)
    then show ?thesis by (simp add: perform_create_row)
  qed
next
  fix r db'
  assume a: "update partial (Some u) now pk d db = (r, db') \<and> status r = HTTP_200_OK"
  show "\<exists>b. data r = BudgetBody b \<and> user b = u \<and> budget_id b = pk \<and> b \<in> set (budgets db') \<and>
           (\<forall>row\<in>set (budgets db'). budget_id row = pk \<longrightarrow> row = b)"
  proof (cases "get_object u pk db")
    case None
    with a show ?thesis by (auto simp: update_def not_found_def)
  next
    case (Some inst)
    note g = get_object_Some [OF Some]
    show ?thesis
    proof (cases "is_valid partial d")
      case (Inl errors)
      with a Some show ?thesis by (auto simp: update_def)
    next
      case (Inr v)
      define b where "b = fst (perform_update u now inst v db)"
      have "r = \<lparr>status = HTTP_200_OK, data = BudgetBody b\<rparr>"
        and "db' = snd (perform_update u now inst v db)"
        using a Some Inr by (auto simp: update_def split_beta b_def)
      then have r: "data r = BudgetBody b"
        and d: "budgets db' = map (\<lambda>r. if budget_id r = budget_id inst then b else r) (budgets db)"
        by (simp_all add: perform_update_row b_def)
      have b: "user b = u" "budget_id b = pk"
        using g by (simp_all add: b_def perform_update_row)
      have "b \<in> set (budgets db')" using g by (force simp: d)
      moreover have "\<forall>row\<in>set (budgets db'). budget_id row = pk \<longrightarrow> row = b"
        using g by (auto simp: d)
      ultimately show ?thesis using r b by blast
    qed
  qed
next
  show "create (Some u) now (d\<lparr>data_user := x\<rparr>) db = create (Some u) now d db"
    unfolding create_def is_valid_ignores_user by (rule refl)
  show "update partial (Some u) now pk (d\<lparr>data_user := x\<rparr>) db = update partial (Some u) now pk d db"
    unfolding update_def is_valid_ignores_user by (rule refl)
qed


lemma example_create_status:
  "status (fst (create (Some 1) 1000 example_post example_db)) = HTTP_201_CREATED"
  by (simp add: create_def is_valid_def run_field_def field_errors_def field_value_def
      run_title_def title_field_def description_field_def CharField_def then_validate_def
      one_error_def max_length_def prohibit_null_characters_def
      prohibit_surrogate_characters_def validate_title_def title_max_length_def strip_def
      str_def isspace_def validate_date_def date_truthy_def run_initial_amount_def
      initial_amount_field_def validate_precision_def quantize_def MinValueValidator_def
      validate_initial_amount_def dec_value_def float_0_01_def float_999999999_99_def
      max_digits_def decimal_places_def ndigits.simps example_post_def split_beta)

lemma example_update_status:
  "status (fst (update True (Some 1) 1000 1 example_patch example_db)) = HTTP_200_OK"
  by (simp add: update_def get_object_def get_queryset_def example_db_budgets example_budget_def
      is_valid_def run_field_def field_errors_def field_value_def
      run_title_def title_field_def CharField_def then_validate_def one_error_def
      max_length_def prohibit_null_characters_def prohibit_surrogate_characters_def
      validate_title_def title_max_length_def strip_def str_def
      isspace_def example_patch_def split_beta)

theorem owner_is_requesting_user_witness:
  "data_user example_post = Parsed 2 \<and> data_user example_patch = Parsed 2 \<and>
   status (fst (create (Some 1) 1000 example_post example_db)) = HTTP_201_CREATED \<and>
   (\<exists>b. data (fst (create (Some 1) 1000 example_post example_db)) = BudgetBody b \<and> user b = 1) \<and>
   status (fst (update True (Some 1) 1000 1 example_patch example_db)) = HTTP_200_OK \<and>
   (\<exists>b. data (fst (update True (Some 1) 1000 1 example_patch example_db)) = BudgetBody b \<and>
        user b = 1 \<and> budget_id b = 1)"
proof -
  note t1 = owner_is_requesting_user [where u = 1 and now = 1000 and d = example_post
      and db = example_db]
  note t2 = owner_is_requesting_user [where u = 1 and now = 1000 and d = example_patch
      and db = example_db and partial = True and pk = 1]
  have c: "create (Some 1) 1000 example_post example_db =
      (fst (create (Some 1) 1000 example_post example_db),
       snd (create (Some 1) 1000 example_post example_db))" by simp
  have u: "update True (Some 1) 1000 1 example_patch example_db =
      (fst (update True (Some 1) 1000 1 example_patch example_db),
       snd (update True (Some 1) 1000 1 example_patch example_db))" by simp
  have "\<exists>b. data (fst (create (Some 1) 1000 example_post example_db)) = BudgetBody b \<and> user b = 1"
    using t1 c example_create_status by blast
  moreover have "\<exists>b. data (fst (update True (Some 1) 1000 1 example_patch example_db)) = BudgetBody b \<and>
        user b = 1 \<and> budget_id b = 1"
    using t2 u example_update_status by blast
  moreover have "data_user example_post = Parsed 2 \<and> data_user example_patch = Parsed 2"
    by (simp add: example_post_def example_patch_def)
  ultimately show ?thesis using example_create_status example_update_status by blast
qed

section \<open>Properties of the health check and of logout\<close>

text \<open>
  C8. A GET of \<open>/up\<close> is routed to the health check and answered with status 200 and the
  body \<open>{"status": "ok"}\<close>, whether or not the request carries an authenticated user.
\<close>

theorem health_check_up:
  "get_up ''/up'' request_user =
     Some \<lparr>status = HTTP_200_OK, data = Fields [(''status'', str ''ok'')]\<rparr> \<and>
   status_code HTTP_200_OK = 200"
  by (simp add: get_up_def resolve_def health_check_def)

text \<open>
  C4. Without an authenticated user logout answers 401 and changes nothing. With one, a
  missing or empty \<open>refresh_token\<close> is answered 400, and so is a token that \<open>RefreshToken\<close>
  refuses; a token it accepts is answered 200 and one row holding the token is appended
  to the blacklist. In every case the users, the budgets and their sequences stay as they
  were, the blacklist only grows, by at most one row, and the refresh view answers every
  token after the logout as it did before.
\<close>

theorem logout_contract:
  "logout lib None now t db = (not_authenticated, db) \<and>
   status not_authenticated = HTTP_401_UNAUTHORIZED \<and>
   (falsy t \<longrightarrow>
      logout lib (Some u) now t db =
        (\<lparr>status = HTTP_400_BAD_REQUEST, data = Detail ''Refresh token is required.''\<rparr>, db)) \<and>
   (\<forall>s e. t = Some s \<and> s \<noteq> [] \<and> RefreshToken lib s = Inl e \<longrightarrow>
      logout lib (Some u) now t db =
        (\<lparr>status = HTTP_400_BAD_REQUEST, data = Detail (''Invalid token: '' @ e)\<rparr>, db)) \<and>
   (\<forall>s tok. t = Some s \<and> s \<noteq> [] \<and> RefreshToken lib s = Inr tok \<longrightarrow>
      logout lib (Some u) now t db =
        (\<lparr>status = HTTP_200_OK, data = Detail ''Successfully logged out.''\<rparr>,
         db\<lparr>token_blacklist := token_blacklist db @
               [\<lparr>blacklist_id = Suc (blacklist_seq db), token = token_str lib tok,
                 blacklisted_at = now\<rparr>],
             blacklist_seq := Suc (blacklist_seq db)\<rparr>)) \<and>
   users (snd (logout lib request_user now t db)) = users db \<and>
   budgets (snd (logout lib request_user now t db)) = budgets db \<and>
   user_seq (snd (logout lib request_user now t db)) = user_seq db \<and>
   budget_seq (snd (logout lib request_user now t db)) = budget_seq db \<and>
   (\<exists>rows. token_blacklist (snd (logout lib request_user now t db)) = token_blacklist db @ rows \<and>
      length rows \<le> 1) \<and>
   (\<forall>x. token_refresh lib x (snd (logout lib request_user now t db)) = token_refresh lib x db)"
proof -
  have frame: "users (snd (logout lib request_user now t db)) = users db \<and>
      budgets (snd (logout lib request_user now t db)) = budgets db \<and>
      user_seq (snd (logout lib request_user now t db)) = user_seq db \<and>
      budget_seq (snd (logout lib request_user now t db)) = budget_seq db"
    by (simp add: logout_def split: option.splits sum.splits)
  have grow: "\<exists>rows. token_blacklist (snd (logout lib request_user now t db)) =
      token_blacklist db @ rows \<and> length rows \<le> 1"
    by (simp add: logout_def split: option.splits sum.splits)
  have refresh: "\<forall>x. token_refresh lib x (snd (logout lib request_user now t db)) =
      token_refresh lib x db"
    by (simp add: token_refresh_def)
  have "logout lib None now t db = (not_authenticated, db)" by (simp add: logout_def)
  moreover have "status not_authenticated = HTTP_401_UNAUTHORIZED"
    by (simp add: not_authenticated_def)
  moreover have "falsy t \<longrightarrow>
      logout lib (Some u) now t db =
        (\<lparr>status = HTTP_400_BAD_REQUEST, data = Detail ''Refresh token is required.''\<rparr>, db)"
    by (simp add: logout_def)
  moreover have "\<forall>s e. t = Some s \<and> s \<noteq> [] \<and> RefreshToken lib s = Inl e \<longrightarrow>
      logout lib (Some u) now t db =
        (\<lparr>status = HTTP_400_BAD_REQUEST, data = Detail (''Invalid token: '' @ e)\<rparr>, db)"
    by (simp add: logout_def falsy_def)
  moreover have "\<forall>s tok. t = Some s \<and> s \<noteq> [] \<and> RefreshToken lib s = Inr tok \<longrightarrow>
      logout lib (Some u) now t db =
        (\<lparr>status = HTTP_200_OK, data = Detail ''Successfully logged out.''\<rparr>,
         db\<lparr>token_blacklist := token_blacklist db @
               [\<lparr>blacklist_id = Suc (blacklist_seq db), token = token_str lib tok,
                 blacklisted_at = now\<rparr>],
             blacklist_seq := Suc (blacklist_seq db)\<rparr>)"
    by (simp add: logout_def falsy_def)
  ultimately show ?thesis using frame grow refresh by blast
qed

text \<open>
  C9. For any authenticated user and any non-empty token string that \<open>RefreshToken\<close>
  accepts, logout answers 200 and appends the blacklist row of that token; the outcome is
  the one the user the token was issued to would get, so nothing compares the two.
\<close>

theorem logout_ignores_token_owner:
  assumes "s \<noteq> []" and "RefreshToken lib s = Inr tok"
  shows "status (fst (logout lib (Some u) now (Some s) db)) = HTTP_200_OK \<and>
         token_blacklist (snd (logout lib (Some u) now (Some s) db)) =
           token_blacklist db @
             [\<lparr>blacklist_id = Suc (blacklist_seq db), token = token_str lib tok,
               blacklisted_at = now\<rparr>] \<and>
         logout lib (Some u) now (Some s) db =
           logout lib (Some (token_user_id tok)) now (Some s) db"
  using assms by (simp add: logout_def falsy_def)


lemma example_refresh_token:
  "RefreshToken example_token_library (str ''refresh.of.user2'') =
     Inr \<lparr>token_user_id = 2, token_exp = 86400, token_jti = str ''a1''\<rparr>"
  "RefreshToken example_token_library (str ''invalid.token.here'') =
     Inl ''Token is invalid or expired''"
  "token_str example_token_library \<lparr>token_user_id = 2, token_exp = 86400, token_jti = str ''a1''\<rparr> =
     str ''refresh.of.user2''"
  "str ''refresh.of.user2'' \<noteq> []" "str ''invalid.token.here'' \<noteq> []"
  by (simp_all add: example_token_library_def str_def)

theorem logout_contract_witness:
  "logout example_token_library None 500 (Some (str ''refresh.of.user2'')) example_db =
     (not_authenticated, example_db) \<and>
   logout example_token_library (Some 2) 500 None example_db =
     (\<lparr>status = HTTP_400_BAD_REQUEST, data = Detail ''Refresh token is required.''\<rparr>, example_db) \<and>
   logout example_token_library (Some 2) 500 (Some (str ''invalid.token.here'')) example_db =
     (\<lparr>status = HTTP_400_BAD_REQUEST,
       data = Detail ''Invalid token: Token is invalid or expired''\<rparr>, example_db) \<and>
   logout example_token_library (Some 2) 500 (Some (str ''refresh.of.user2'')) example_db =
     (\<lparr>status = HTTP_200_OK, data = Detail ''Successfully logged out.''\<rparr>,
      example_db\<lparr>token_blacklist :=
                   [\<lparr>blacklist_id = 1, token = str ''refresh.of.user2'', blacklisted_at = 500\<rparr>],
                 blacklist_seq := 1\<rparr>)"
proof -
  have f: "falsy None" by (simp add: falsy_def)
  have e: "token_blacklist example_db = []" "blacklist_seq example_db = 0"
    by (simp_all add: example_db_def)
  have a: "logout example_token_library None 500 (Some (str ''refresh.of.user2'')) example_db =
     (not_authenticated, example_db)"
    using logout_contract [of example_token_library 500 "Some (str ''refresh.of.user2'')" example_db]
    by (rule conjunct1)
  have b: "logout example_token_library (Some 2) 500 None example_db =
     (\<lparr>status = HTTP_400_BAD_REQUEST, data = Detail ''Refresh token is required.''\<rparr>, example_db)"
    using logout_contract [of example_token_library 500 None example_db 2] f by blast
  have c: "logout example_token_library (Some 2) 500 (Some (str ''invalid.token.here'')) example_db =
     (\<lparr>status = HTTP_400_BAD_REQUEST,
       data = Detail (''Invalid token: '' @ ''Token is invalid or expired'')\<rparr>, example_db)"
    using logout_contract [of example_token_library 500 "Some (str ''invalid.token.here'')" example_db 2]
      example_refresh_token(2,5) by blast
  have d: "logout example_token_library (Some 2) 500 (Some (str ''refresh.of.user2'')) example_db =
     (\<lparr>status = HTTP_200_OK, data = Detail ''Successfully logged out.''\<rparr>,
      example_db\<lparr>token_blacklist := token_blacklist example_db @
            [\<lparr>blacklist_id = Suc (blacklist_seq example_db),
              token = token_str example_token_library
                \<lparr>token_user_id = 2, token_exp = 86400, token_jti = str ''a1''\<rparr>,
              blacklisted_at = 500\<rparr>],
          blacklist_seq := Suc (blacklist_seq example_db)\<rparr>)"
    using logout_contract [of example_token_library 500 "Some (str ''refresh.of.user2'')" example_db 2]
      example_refresh_token(1,4) by blast
  show ?thesis using a b c d by (simp add: e example_refresh_token(3))
qed

theorem logout_ignores_token_owner_witness:
  "token_user_id \<lparr>token_user_id = 2, token_exp = 86400, token_jti = str ''a1''\<rparr> \<noteq> 1 \<and>
   status (fst (logout example_token_library (Some 1) 500 (Some (str ''refresh.of.user2''))
     example_db)) = HTTP_200_OK \<and>
   token_blacklist (snd (logout example_token_library (Some 1) 500
     (Some (str ''refresh.of.user2'')) example_db)) =
     [\<lparr>blacklist_id = 1, token = str ''refresh.of.user2'', blacklisted_at = 500\<rparr>]"
proof -
  have e: "token_blacklist example_db = []" "blacklist_seq example_db = 0"
    by (simp_all add: example_db_def)
  note t = logout_ignores_token_owner [OF example_refresh_token(4) example_refresh_token(1),
      of 1 500 example_db]
  show ?thesis
    using t [THEN conjunct1] t [THEN conjunct2, THEN conjunct1]
    by (simp add: e example_refresh_token(3))
qed

section \<open>Further properties\<close>

text \<open>
  The two float constants are the doubles nearest to the literals of the source: a
  significand of 53 bits, and a distance to the written decimal below half a unit in the
  last place. Both lie above the written decimal.
\<close>

lemma float_0_01_nearest:
  "float_0_01 = 5764607523034235 / 2 ^ 59 \<and>
   (2::rat) ^ 52 \<le> 5764607523034235 \<and> (5764607523034235::rat) < 2 ^ 53 \<and>
   \<bar>float_0_01 - 1 / 100\<bar> < 1 / 2 ^ 60 \<and> 1 / 100 < float_0_01"
  by (simp add: float_0_01_def)

lemma float_999999999_99_nearest:
  "float_999999999_99 = 8388607999916114 / 2 ^ 23 \<and>
   (2::rat) ^ 52 \<le> 8388607999916114 \<and> (8388607999916114::rat) < 2 ^ 53 \<and>
   \<bar>float_999999999_99 - 99999999999 / 100\<bar> < 1 / 2 ^ 24 \<and>
   99999999999 / 100 < float_999999999_99"
  by (simp add: float_999999999_99_def)

text \<open>
  The range of the amount validation: an amount that is not positive or lies above
  999999999.99 is rejected; an amount that passes the precision check and is at least two
  cents is accepted, as quantised. A value that passes the precision check is below
  \<open>10^8\<close>, so the cap of \<open>validate_initial_amount\<close> is never what rejects an amount.
\<close>

lemma validate_precision_bound:
  assumes "validate_precision d = Inr v"
  shows "\<bar>dec_value d\<bar> < 10 ^ 8"
proof -
  let ?c = "coefficient d" and ?e = "exponent d"
  have c: "(of_nat ?c :: rat) < 10 ^ ndigits ?c"
    using ndigits_upper [of ?c] by (metis of_nat_less_iff of_nat_numeral of_nat_power)
  have a: "\<bar>dec_value d\<bar> =
      (if 0 \<le> ?e then of_nat ?c * 10 ^ nat ?e else of_nat ?c / 10 ^ nat (- ?e))"
    by (simp add: dec_value_def abs_mult)
  consider "0 \<le> ?e" "ndigits ?c + nat ?e \<le> 8"
    | "?e = - 1" "ndigits ?c \<le> 9" | "?e = - 2" "ndigits ?c \<le> 10"
    using assms
    by (auto simp: validate_precision_def Let_def max_digits_def decimal_places_def
        split: if_splits) linarith+
  then show ?thesis
  proof cases
    case 1
    have "of_nat ?c * (10::rat) ^ nat ?e < 10 ^ ndigits ?c * 10 ^ nat ?e"
      using c by simp
    also have "\<dots> = 10 ^ (ndigits ?c + nat ?e)" by (simp add: power_add)
    also have "\<dots> \<le> 10 ^ 8" using 1(2) by (intro power_increasing) simp_all
    finally show ?thesis using 1(1) a by simp
  next
    case 2
    have "(10::rat) ^ ndigits ?c \<le> 10 ^ 9" using 2(2) by (intro power_increasing) simp_all
    with c have "(of_nat ?c :: rat) < 10 ^ 9" by linarith
    then show ?thesis using 2(1) a by simp
  next
    case 3
    have "(10::rat) ^ ndigits ?c \<le> 10 ^ 10" using 3(2) by (intro power_increasing) simp_all
    with c have "(of_nat ?c :: rat) < 10 ^ 10" by linarith
    then show ?thesis using 3(1) a by simp
  qed
qed

lemma run_initial_amount_rejects:
  assumes "dec_value d \<le> 0 \<or> 99999999999 / 100 < dec_value d"
  shows "\<exists>e. run_initial_amount d = Inl e"
proof (cases "validate_precision d")
  case (Inl e)
  then show ?thesis by (simp add: run_initial_amount_def initial_amount_field_def)
next
  case (Inr v)
  note p = validate_precision_Inr [OF Inr]
  have q: "dec_value (quantize d) = dec_value d" using p(2) by (rule dec_value_quantize)
  have "dec_value d < 10 ^ 8" using validate_precision_bound [OF Inr] by linarith
  with assms have "dec_value d \<le> 0" by simp
  then have "dec_value (quantize d) < float_0_01" using q by (simp add: float_0_01_def)
  then show ?thesis
    using Inr p(1)
    by (simp add: run_initial_amount_def initial_amount_field_def MinValueValidator_def)
qed

lemma initial_amount_nine_whole_digits_rejected:
  "run_initial_amount \<lparr>negative = False, coefficient = 50000000000, exponent = - 2\<rparr> =
     Inl ''Ensure that there are no more than 10 digits in total.'' \<and>
   validate_initial_amount \<lparr>negative = False, coefficient = 50000000000, exponent = - 2\<rparr> =
     Inr \<lparr>negative = False, coefficient = 50000000000, exponent = - 2\<rparr>"
  by (simp add: run_initial_amount_def initial_amount_field_def validate_precision_def
      dec_value_def float_999999999_99_def validate_initial_amount_def max_digits_def
      decimal_places_def ndigits.simps)

lemma run_initial_amount_accepts:
  assumes "validate_precision d = Inr v" and "1 / 50 \<le> dec_value d"
  shows "run_initial_amount d = Inr (quantize d)"
proof -
  note p = validate_precision_Inr [OF assms(1)]
  have q: "dec_value (quantize d) = dec_value d" using p(2) by (rule dec_value_quantize)
  have b: "dec_value d < 10 ^ 8" using validate_precision_bound [OF assms(1)] by linarith
  have "\<not> dec_value (quantize d) < float_0_01"
    using assms(2) q by (simp add: float_0_01_def)
  moreover have "\<not> dec_value (quantize d) \<le> 0" using assms(2) q by simp
  moreover have "\<not> float_999999999_99 < dec_value (quantize d)"
    using b q by (simp add: float_999999999_99_def)
  ultimately show ?thesis
    using assms(1) p(1)
    by (simp add: run_initial_amount_def initial_amount_field_def MinValueValidator_def
        validate_initial_amount_def)
qed

text \<open>
  The three writing views keep the primary key of \<open>budgets\<close> in order, so the
  uniqueness that the lookup by id relies on holds in every database they produce from
  one where it holds.
\<close>

lemma primary_keys_ok_create:
  assumes "primary_keys_ok db"
  shows "primary_keys_ok (snd (create request_user now d db))"
proof (cases "\<exists>u v. request_user = Some u \<and> is_valid False d = Inr v")
  case True
  then obtain u v where u: "request_user = Some u" and v: "is_valid False d = Inr v" by blast
  have s: "snd (create request_user now d db) = snd (perform_create u now v db)"
    by (simp add: create_def u v split_beta)
  have "\<forall>b\<in>set (budgets db). budget_id b \<le> budget_seq db"
    using assms by (simp add: primary_keys_ok_def list_all_iff)
  then have "Suc (budget_seq db) \<notin> set (map budget_id (budgets db))"
    and "\<forall>b\<in>set (budgets db). budget_id b \<le> Suc (budget_seq db)"
    by fastforce+
  then show ?thesis
    using assms by (simp add: s perform_create_def Let_def primary_keys_ok_def list_all_iff)
next
  case False
  then have "snd (create request_user now d db) = db"
    by (auto simp: create_def split: option.splits sum.splits)
  with assms show ?thesis by simp
qed

lemma map_budget_id_replace:
  "budget_id b = k \<Longrightarrow>
   map budget_id (map (\<lambda>r. if budget_id r = k then b else r) rows) = map budget_id rows"
  by (induction rows) auto

lemma primary_keys_ok_update:
  assumes "primary_keys_ok db"
  shows "primary_keys_ok (snd (update partial request_user now pk d db))"
proof (cases "\<exists>u inst v. request_user = Some u \<and> get_object u pk db = Some inst \<and>
    is_valid partial d = Inr v")
  case True
  then obtain u inst v where u: "request_user = Some u" "get_object u pk db = Some inst"
    "is_valid partial d = Inr v" by blast
  have s: "snd (update partial request_user now pk d db) = snd (perform_update u now inst v db)"
    by (simp add: update_def u split_beta)
  have m: "map budget_id (budgets (snd (perform_update u now inst v db))) =
      map budget_id (budgets db)"
    by (simp add: perform_update_row map_budget_id_replace)
  have q: "budget_seq (snd (perform_update u now inst v db)) = budget_seq db"
    by (simp add: perform_update_def Let_def)
  have "list_all (\<lambda>b. budget_id b \<le> budget_seq db) (budgets db)"
    using assms by (simp add: primary_keys_ok_def)
  then have "list_all (\<lambda>k. k \<le> budget_seq db) (map budget_id (budgets db))"
    by (simp add: list_all_iff)
  then have "list_all (\<lambda>k. k \<le> budget_seq db)
      (map budget_id (budgets (snd (perform_update u now inst v db))))"
    by (simp only: m)
  then have "list_all (\<lambda>b. budget_id b \<le> budget_seq db)
      (budgets (snd (perform_update u now inst v db)))"
    by (simp add: list_all_iff)
  then show ?thesis
    using assms by (simp add: s primary_keys_ok_def m q)
next
  case False
  then have "snd (update partial request_user now pk d db) = db"
    by (auto simp: update_def split: option.splits sum.splits)
  with assms show ?thesis by simp
qed

lemma primary_keys_ok_destroy:
  assumes "primary_keys_ok db"
  shows "primary_keys_ok (snd (destroy request_user pk db))"
  using assms
  by (auto simp: destroy_def primary_keys_ok_def list_all_iff distinct_map_filter
      split: option.splits)

section \<open>The title of a created or updated budget\<close>




lemma length_strip: "length (strip v) \<le> length v"
proof -
  obtain l r where "v = l @ strip v @ r" using strip_decomp by blast
  then have "length v = length l + length (strip v) + length r"
    by (metis length_append add.assoc)
  then show ?thesis by simp
qed

lemma CharField_Inr:
  "CharField False blank_msg validators x = Inr v \<Longrightarrow>
     v = strip x \<and> strip x \<noteq> [] \<and> validators (strip x) = [] \<and>
     prohibit_null_characters (strip x) = [] \<and>
     prohibit_surrogate_characters (strip x) = []"
  by (auto simp: CharField_def Let_def split: if_splits)


lemma CharField_Inl:
  "CharField allow_blank blank_msg validators x = Inl errors \<Longrightarrow> errors \<noteq> []"
  by (auto simp: CharField_def Let_def split: if_splits)




lemma run_field_Inr:
  "run_field partial req rm im f inp = Inr r \<Longrightarrow>
     (inp = Absent \<and> r = None \<and> (req \<longrightarrow> partial)) \<or>
     (\<exists>x v. inp = Parsed x \<and> f x = Inr v \<and> r = Some v)"
  by (auto simp: run_field_def split: field_input.splits if_splits sum.splits)

lemma run_field_Parsed_Inl:
  "f x = Inl errors \<Longrightarrow> run_field partial req rm im f (Parsed x) = Inl errors"
  by (simp add: run_field_def)

lemma is_valid_Inr:
  assumes "is_valid partial d = Inr vd"
  shows "run_field partial True ''Title is required.'' ''Not a valid string.''
           run_title (data_title d) = Inr (valid_title vd)"
    and "run_field partial False ''This field is required.'' ''Not a valid string.''
           description_field (data_description d) = Inr (valid_description vd)"
    and "run_field partial True ''Date is required.'' ''Enter a valid date (YYYY-MM-DD).''
           (\<lambda>x. one_error (validate_date x)) (data_date d) = Inr (valid_date vd)"
    and "run_field partial True ''Initial amount is required.'' ''Enter a valid decimal number.''
           (\<lambda>x. one_error (run_initial_amount x)) (data_initial_amount d) =
         Inr (valid_initial_amount vd)"
  using assms
  by (auto simp: is_valid_def Let_def field_errors_def field_value_def
      split: if_splits sum.splits)


lemma is_valid_amount_Inl:
  assumes "run_field partial True ''Initial amount is required.'' ''Enter a valid decimal number.''
           (\<lambda>x. one_error (run_initial_amount x)) (data_initial_amount d) = Inl es"
  shows "\<exists>errors. is_valid partial d = Inl errors \<and> ''initial_amount'' \<in> set (map fst errors)"
  using assms by (simp add: is_valid_def Let_def field_errors_def)

lemma create_rejected:
  "is_valid False d = Inl errors \<Longrightarrow> name \<in> set (map fst errors) \<Longrightarrow>
   rejected_on name (create (Some u) now d db) db"
  by (simp add: create_def rejected_on_def)

lemma update_rejected:
  "get_object u pk db = Some inst \<Longrightarrow> is_valid partial d = Inl errors \<Longrightarrow>
   name \<in> set (map fst errors) \<Longrightarrow>
   rejected_on name (update partial (Some u) now pk d db) db"
  by (simp add: update_def rejected_on_def)

lemma create_Created:
  assumes "create (Some u) now d db = (r, db')" and "status r = HTTP_201_CREATED"
  shows "\<exists>vd. is_valid False d = Inr vd \<and>
           r = \<lparr>status = HTTP_201_CREATED, data = BudgetBody (fst (perform_create u now vd db))\<rparr> \<and>
           db' = snd (perform_create u now vd db)"
proof (cases "is_valid False d")
  case (Inl errors)
  with assms show ?thesis by (auto simp: create_def)
next
  case (Inr vd)
  with assms show ?thesis by (auto simp: create_def split_beta)
qed

lemma update_OK:
  assumes "update partial (Some u) now pk d db = (r, db')" and "status r = HTTP_200_OK"
  shows "\<exists>inst vd. get_object u pk db = Some inst \<and> is_valid partial d = Inr vd \<and>
           r = \<lparr>status = HTTP_200_OK, data = BudgetBody (fst (perform_update u now inst vd db))\<rparr> \<and>
           db' = snd (perform_update u now inst vd db)"
proof (cases "get_object u pk db")
  case None
  with assms show ?thesis by (auto simp: update_def not_found_def)
next
  case (Some inst)
  show ?thesis
  proof (cases "is_valid partial d")
    case (Inl errors)
    with assms Some show ?thesis by (auto simp: update_def)
  next
    case (Inr vd)
    with assms Some show ?thesis by (auto simp: update_def split_beta)
  qed
qed

lemma perform_create_fields:
  "title (fst (perform_create u now vd db)) = (case valid_title vd of Some t \<Rightarrow> t | None \<Rightarrow> [])"
  "initial_amount (fst (perform_create u now vd db)) =
     (case valid_initial_amount vd of Some m \<Rightarrow> m
      | None \<Rightarrow> \<lparr>negative = False, coefficient = 0, exponent = 0\<rparr>)"
  by (simp_all add: perform_create_def Let_def)

lemma perform_update_fields:
  "title (fst (perform_update u now inst vd db)) =
     (case valid_title vd of Some t \<Rightarrow> t | None \<Rightarrow> title inst)"
  "initial_amount (fst (perform_update u now inst vd db)) =
     (case valid_initial_amount vd of Some m \<Rightarrow> m | None \<Rightarrow> initial_amount inst)"
  by (simp_all add: perform_update_def Let_def)

lemma perform_update_member:
  "inst \<in> set (budgets db) \<Longrightarrow>
   fst (perform_update u now inst vd db) \<in> set (budgets (snd (perform_update u now inst vd db)))"
  by (force simp: perform_update_row)









section \<open>The amount of a created or updated budget\<close>

lemma one_error_Inr: "one_error r = Inr v \<longleftrightarrow> r = Inr v"
  by (cases r) (simp_all add: one_error_def)

lemma run_initial_amount_Inr:
  assumes "run_initial_amount a = Inr v"
  shows "v = quantize a" and "exponent v = - 2" and "ndigits (coefficient v) \<le> 10"
    and "dec_value v = dec_value a"
proof -
  obtain w where w: "validate_precision a = Inr w"
    using assms
    by (cases "validate_precision a") (auto simp: run_initial_amount_def initial_amount_field_def)
  show "v = quantize a"
    using assms w validate_precision_Inr(1) [OF w]
    by (auto simp: run_initial_amount_def initial_amount_field_def MinValueValidator_def
        validate_initial_amount_def split: if_splits)
  show "exponent v = - 2" "ndigits (coefficient v) \<le> 10" "dec_value v = dec_value a"
    using run_initial_amount_precision [of a] assms by blast+
qed

lemma amount_rejected:
  assumes "data_initial_amount d = Parsed a" and "exponent a < - 2"
  shows "\<exists>errors. is_valid partial d = Inl errors \<and> ''initial_amount'' \<in> set (map fst errors)"
proof -
  obtain e where "run_initial_amount a = Inl e"
    using run_initial_amount_precision [of a] assms(2) by blast
  then have "one_error (run_initial_amount a) = Inl [e]" by (simp add: one_error_def)
  then have "run_field partial True ''Initial amount is required.'' ''Enter a valid decimal number.''
      (\<lambda>x. one_error (run_initial_amount x)) (data_initial_amount d) = Inl [e]"
    unfolding assms(1) by (rule run_field_Parsed_Inl)
  then show ?thesis by (rule is_valid_amount_Inl)
qed

lemma create_amounts_ok:
  assumes "amounts_ok db"
  shows "amounts_ok (snd (create request_user now d db))"
proof (cases "\<exists>u vd. request_user = Some u \<and> is_valid False d = Inr vd")
  case True
  then obtain u vd where u: "request_user = Some u" and vd: "is_valid False d = Inr vd" by blast
  have s: "snd (create request_user now d db) = snd (perform_create u now vd db)"
    by (simp add: create_def u vd split_beta)
  obtain x v where "data_initial_amount d = Parsed x" "one_error (run_initial_amount x) = Inr v"
    "valid_initial_amount vd = Some v"
    using run_field_Inr [OF is_valid_Inr(4) [OF vd]] by auto
  then have "exponent (initial_amount (fst (perform_create u now vd db))) = - 2 \<and>
      ndigits (coefficient (initial_amount (fst (perform_create u now vd db)))) \<le> 10"
    using run_initial_amount_Inr [of x v] by (simp add: one_error_Inr perform_create_fields)
  then show ?thesis
    using assms by (simp add: s amounts_ok_def perform_create_row)
next
  case False
  then have "snd (create request_user now d db) = db"
    by (auto simp: create_def split: option.splits sum.splits)
  with assms show ?thesis by simp
qed

lemma update_amounts_ok:
  assumes "amounts_ok db"
  shows "amounts_ok (snd (update partial request_user now pk d db))"
proof (cases "\<exists>u inst vd. request_user = Some u \<and> get_object u pk db = Some inst \<and>
    is_valid partial d = Inr vd")
  case True
  then obtain u inst vd where u: "request_user = Some u" "get_object u pk db = Some inst"
    "is_valid partial d = Inr vd" by blast
  have s: "snd (update partial request_user now pk d db) = snd (perform_update u now inst vd db)"
    by (simp add: update_def u split_beta)
  have i: "inst \<in> set (budgets db)" using get_object_Some [OF u(2)] by simp
  then have io: "exponent (initial_amount inst) = - 2 \<and>
      ndigits (coefficient (initial_amount inst)) \<le> 10"
    using assms by (simp add: amounts_ok_def list_all_iff)
  have "exponent (initial_amount (fst (perform_update u now inst vd db))) = - 2 \<and>
      ndigits (coefficient (initial_amount (fst (perform_update u now inst vd db)))) \<le> 10"
  proof (cases "valid_initial_amount vd")
    case None
    then show ?thesis using io by (simp add: perform_update_fields)
  next
    case (Some v)
    then obtain x where "one_error (run_initial_amount x) = Inr v"
      using run_field_Inr [OF is_valid_Inr(4) [OF u(3)]] by auto
    then show ?thesis
      using run_initial_amount_Inr [of x v] Some by (simp add: one_error_Inr perform_update_fields)
  qed
  then show ?thesis
    using assms by (auto simp: s amounts_ok_def perform_update_row list_all_iff)
next
  case False
  then have "snd (update partial request_user now pk d db) = db"
    by (auto simp: update_def split: option.splits sum.splits)
  with assms show ?thesis by simp
qed

lemma destroy_amounts_ok:
  assumes "amounts_ok db"
  shows "amounts_ok (snd (destroy request_user pk db))"
  using assms by (auto simp: destroy_def amounts_ok_def list_all_iff split: option.splits)

text \<open>
  C10. An amount written with more than two decimal places is rejected by the validation
  of the amount, whatever its value (0.005 is), and a create or an update that submits it
  is rejected with an error under \<open>initial_amount\<close> and stores nothing. A successful create
  stores, and answers, a row whose amount is the submitted amount quantised: exponent
  \<open>-2\<close>, that is exactly two decimal places, at most ten digits, and the submitted value. So
  does a successful update that submits an amount, and one that submits none leaves the
  amount as it was. When every stored amount has two places and at most ten digits, this
  still holds after any create, update or delete.
\<close>

theorem initial_amount_two_places:
  "(exponent a < - 2 \<longrightarrow> (\<exists>e. run_initial_amount a = Inl e)) \<and>
   (\<forall>v. run_initial_amount a = Inr v \<longrightarrow>
      exponent v = - 2 \<and> ndigits (coefficient v) \<le> 10 \<and> dec_value v = dec_value a) \<and>
   (data_initial_amount d = Parsed a \<and> exponent a < - 2 \<longrightarrow>
      rejected_on ''initial_amount'' (create (Some u) now d db) db \<and>
      (get_object u pk db \<noteq> None \<longrightarrow>
         rejected_on ''initial_amount'' (update partial (Some u) now pk d db) db)) \<and>
   (\<forall>r db'. create (Some u) now d db = (r, db') \<and> status r = HTTP_201_CREATED \<longrightarrow>
      (\<exists>x b. data_initial_amount d = Parsed x \<and> data r = BudgetBody b \<and>
         budgets db' = budgets db @ [b] \<and> initial_amount b = quantize x \<and>
         exponent (initial_amount b) = - 2 \<and> ndigits (coefficient (initial_amount b)) \<le> 10 \<and>
         dec_value (initial_amount b) = dec_value x)) \<and>
   (\<forall>r db'. update partial (Some u) now pk d db = (r, db') \<and> status r = HTTP_200_OK \<longrightarrow>
      (\<exists>inst b. get_object u pk db = Some inst \<and> data r = BudgetBody b \<and>
         b \<in> set (budgets db') \<and> budget_id b = pk \<and>
         (data_initial_amount d = Absent \<longrightarrow> initial_amount b = initial_amount inst) \<and>
         (data_initial_amount d = Parsed a \<longrightarrow>
            initial_amount b = quantize a \<and> exponent (initial_amount b) = - 2 \<and>
            ndigits (coefficient (initial_amount b)) \<le> 10 \<and>
            dec_value (initial_amount b) = dec_value a))) \<and>
   (amounts_ok db \<longrightarrow>
      amounts_ok (snd (create request_user now d db)) \<and>
      amounts_ok (snd (update partial request_user now pk d db)) \<and>
      amounts_ok (snd (destroy request_user pk db)))"
proof -
  have 1: "(exponent a < - 2 \<longrightarrow> (\<exists>e. run_initial_amount a = Inl e)) \<and>
   (\<forall>v. run_initial_amount a = Inr v \<longrightarrow>
      exponent v = - 2 \<and> ndigits (coefficient v) \<le> 10 \<and> dec_value v = dec_value a)"
    by (rule run_initial_amount_precision)
  have 3: "data_initial_amount d = Parsed a \<and> exponent a < - 2 \<longrightarrow>
      rejected_on ''initial_amount'' (create (Some u) now d db) db \<and>
      (get_object u pk db \<noteq> None \<longrightarrow>
         rejected_on ''initial_amount'' (update partial (Some u) now pk d db) db)"
  proof (intro impI, elim conjE)
    assume p: "data_initial_amount d = Parsed a" "exponent a < - 2"
    obtain e1 where e1: "is_valid False d = Inl e1" "''initial_amount'' \<in> set (map fst e1)"
      using amount_rejected [OF p] by blast
    obtain e2 where e2: "is_valid partial d = Inl e2" "''initial_amount'' \<in> set (map fst e2)"
      using amount_rejected [OF p] by blast
    show "rejected_on ''initial_amount'' (create (Some u) now d db) db \<and>
      (get_object u pk db \<noteq> None \<longrightarrow>
         rejected_on ''initial_amount'' (update partial (Some u) now pk d db) db)"
      using create_rejected [OF e1] update_rejected [OF _ e2] by auto
  qed
  have 4: "\<forall>r db'. create (Some u) now d db = (r, db') \<and> status r = HTTP_201_CREATED \<longrightarrow>
      (\<exists>x b. data_initial_amount d = Parsed x \<and> data r = BudgetBody b \<and>
         budgets db' = budgets db @ [b] \<and> initial_amount b = quantize x \<and>
         exponent (initial_amount b) = - 2 \<and> ndigits (coefficient (initial_amount b)) \<le> 10 \<and>
         dec_value (initial_amount b) = dec_value x)"
  proof (intro allI impI, elim conjE)
    fix r db'
    assume c: "create (Some u) now d db = (r, db')" "status r = HTTP_201_CREATED"
    obtain vd where vd: "is_valid False d = Inr vd"
      and r: "r = \<lparr>status = HTTP_201_CREATED, data = BudgetBody (fst (perform_create u now vd db))\<rparr>"
      and d: "db' = snd (perform_create u now vd db)"
      using create_Created [OF c] by blast
    obtain x v where x: "data_initial_amount d = Parsed x" "run_initial_amount x = Inr v"
      "valid_initial_amount vd = Some v"
      using run_field_Inr [OF is_valid_Inr(4) [OF vd]] by (auto simp: one_error_Inr)
    note f = run_initial_amount_Inr [OF x(2)]
    have "initial_amount (fst (perform_create u now vd db)) = v"
      using x(3) by (simp add: perform_create_fields)
    then show "\<exists>x b. data_initial_amount d = Parsed x \<and> data r = BudgetBody b \<and>
         budgets db' = budgets db @ [b] \<and> initial_amount b = quantize x \<and>
         exponent (initial_amount b) = - 2 \<and> ndigits (coefficient (initial_amount b)) \<le> 10 \<and>
         dec_value (initial_amount b) = dec_value x"
      using x(1) f r d by (auto simp: perform_create_row)
  qed
  have 5: "\<forall>r db'. update partial (Some u) now pk d db = (r, db') \<and> status r = HTTP_200_OK \<longrightarrow>
      (\<exists>inst b. get_object u pk db = Some inst \<and> data r = BudgetBody b \<and>
         b \<in> set (budgets db') \<and> budget_id b = pk \<and>
         (data_initial_amount d = Absent \<longrightarrow> initial_amount b = initial_amount inst) \<and>
         (data_initial_amount d = Parsed a \<longrightarrow>
            initial_amount b = quantize a \<and> exponent (initial_amount b) = - 2 \<and>
            ndigits (coefficient (initial_amount b)) \<le> 10 \<and>
            dec_value (initial_amount b) = dec_value a))"
  proof (intro allI impI, elim conjE)
    fix r db'
    assume c: "update partial (Some u) now pk d db = (r, db')" "status r = HTTP_200_OK"
    obtain inst vd where g: "get_object u pk db = Some inst"
      and vd: "is_valid partial d = Inr vd"
      and r: "r = \<lparr>status = HTTP_200_OK, data = BudgetBody (fst (perform_update u now inst vd db))\<rparr>"
      and d: "db' = snd (perform_update u now inst vd db)"
      using update_OK [OF c] by blast
    define b where "b = fst (perform_update u now inst vd db)"
    note i = get_object_Some [OF g]
    have m: "b \<in> set (budgets db')" unfolding b_def d using i by (intro perform_update_member) simp
    have k: "budget_id b = pk" using i by (simp add: b_def perform_update_row)
    note f = run_field_Inr [OF is_valid_Inr(4) [OF vd]]
    have ab: "data_initial_amount d = Absent \<longrightarrow> initial_amount b = initial_amount inst"
      using f by (auto simp: b_def perform_update_fields)
    have pa: "data_initial_amount d = Parsed a \<longrightarrow>
            initial_amount b = quantize a \<and> exponent (initial_amount b) = - 2 \<and>
            ndigits (coefficient (initial_amount b)) \<le> 10 \<and>
            dec_value (initial_amount b) = dec_value a"
    proof
      assume "data_initial_amount d = Parsed a"
      then obtain v where v: "run_initial_amount a = Inr v" "valid_initial_amount vd = Some v"
        using f by (auto simp: one_error_Inr)
      have "initial_amount b = v" using v(2) by (simp add: b_def perform_update_fields)
      then show "initial_amount b = quantize a \<and> exponent (initial_amount b) = - 2 \<and>
            ndigits (coefficient (initial_amount b)) \<le> 10 \<and>
            dec_value (initial_amount b) = dec_value a"
        using run_initial_amount_Inr [OF v(1)] by simp
    qed
    have "data r = BudgetBody b" by (simp add: r b_def)
    then show "\<exists>inst b. get_object u pk db = Some inst \<and> data r = BudgetBody b \<and>
         b \<in> set (budgets db') \<and> budget_id b = pk \<and>
         (data_initial_amount d = Absent \<longrightarrow> initial_amount b = initial_amount inst) \<and>
         (data_initial_amount d = Parsed a \<longrightarrow>
            initial_amount b = quantize a \<and> exponent (initial_amount b) = - 2 \<and>
            ndigits (coefficient (initial_amount b)) \<le> 10 \<and>
            dec_value (initial_amount b) = dec_value a)"
      using g m k ab pa by blast
  qed
  have 6: "amounts_ok db \<longrightarrow>
      amounts_ok (snd (create request_user now d db)) \<and>
      amounts_ok (snd (update partial request_user now pk d db)) \<and>
      amounts_ok (snd (destroy request_user pk db))"
    using create_amounts_ok update_amounts_ok destroy_amounts_ok by blast
  show ?thesis using 1 3 4 5 6 by blast
qed


lemma example_amount_create_status:
  "status (fst (create (Some 1) 1000
     (example_post\<lparr>data_initial_amount :=
        Parsed \<lparr>negative = False, coefficient = 5000, exponent = 0\<rparr>\<rparr>) example_db)) =
   HTTP_201_CREATED"
  by (simp add: create_def is_valid_def run_field_def field_errors_def field_value_def
      run_title_def title_field_def description_field_def CharField_def then_validate_def
      one_error_def max_length_def prohibit_null_characters_def
      prohibit_surrogate_characters_def validate_title_def title_max_length_def strip_def
      str_def isspace_def validate_date_def date_truthy_def run_initial_amount_def
      initial_amount_field_def validate_precision_def quantize_def MinValueValidator_def
      validate_initial_amount_def dec_value_def float_0_01_def float_999999999_99_def
      max_digits_def decimal_places_def ndigits.simps example_post_def split_beta)

lemma example_amount_update_status:
  "status (fst (update True (Some 1) 1000 1
     (example_patch\<lparr>data_initial_amount :=
        Parsed \<lparr>negative = False, coefficient = 6000, exponent = 0\<rparr>\<rparr>) example_db)) =
   HTTP_200_OK"
  by (simp add: update_def get_object_def get_queryset_def example_db_budgets example_budget_def
      is_valid_def run_field_def field_errors_def field_value_def
      run_title_def title_field_def CharField_def then_validate_def one_error_def
      max_length_def prohibit_null_characters_def prohibit_surrogate_characters_def
      validate_title_def title_max_length_def strip_def str_def isspace_def
      run_initial_amount_def initial_amount_field_def validate_precision_def quantize_def
      MinValueValidator_def validate_initial_amount_def dec_value_def float_0_01_def
      float_999999999_99_def max_digits_def decimal_places_def ndigits.simps
      example_patch_def split_beta)

theorem initial_amount_two_places_witness:
  "rejected_on ''initial_amount''
     (create (Some 1) 1000
        (example_post\<lparr>data_initial_amount :=
           Parsed \<lparr>negative = False, coefficient = 5, exponent = - 3\<rparr>\<rparr>) example_db)
     example_db \<and>
   rejected_on ''initial_amount''
     (update True (Some 1) 1000 1
        (example_patch\<lparr>data_initial_amount :=
           Parsed \<lparr>negative = False, coefficient = 5, exponent = - 3\<rparr>\<rparr>) example_db)
     example_db \<and>
   (\<exists>b. data (fst (create (Some 1) 1000
        (example_post\<lparr>data_initial_amount :=
           Parsed \<lparr>negative = False, coefficient = 5000, exponent = 0\<rparr>\<rparr>) example_db)) =
        BudgetBody b \<and>
      budgets (snd (create (Some 1) 1000
        (example_post\<lparr>data_initial_amount :=
           Parsed \<lparr>negative = False, coefficient = 5000, exponent = 0\<rparr>\<rparr>) example_db)) =
        budgets example_db @ [b] \<and>
      initial_amount b = \<lparr>negative = False, coefficient = 500000, exponent = - 2\<rparr>) \<and>
   (\<exists>b. data (fst (update True (Some 1) 1000 1
        (example_patch\<lparr>data_initial_amount :=
           Parsed \<lparr>negative = False, coefficient = 6000, exponent = 0\<rparr>\<rparr>) example_db)) =
        BudgetBody b \<and>
      b \<in> set (budgets (snd (update True (Some 1) 1000 1
        (example_patch\<lparr>data_initial_amount :=
           Parsed \<lparr>negative = False, coefficient = 6000, exponent = 0\<rparr>\<rparr>) example_db))) \<and>
      initial_amount b = \<lparr>negative = False, coefficient = 600000, exponent = - 2\<rparr>) \<and>
   amounts_ok example_db \<and>
   amounts_ok (snd (create (Some 1) 1000
        (example_post\<lparr>data_initial_amount :=
           Parsed \<lparr>negative = False, coefficient = 5000, exponent = 0\<rparr>\<rparr>) example_db))"
proof -
  let ?bad = "\<lparr>negative = False, coefficient = 5, exponent = - 3\<rparr>"
  let ?a = "\<lparr>negative = False, coefficient = 5000, exponent = 0\<rparr>"
  let ?b = "\<lparr>negative = False, coefficient = 6000, exponent = 0\<rparr>"
  let ?C = "create (Some 1) 1000 (example_post\<lparr>data_initial_amount := Parsed ?a\<rparr>) example_db"
  let ?U = "update True (Some 1) 1000 1 (example_patch\<lparr>data_initial_amount := Parsed ?b\<rparr>)
     example_db"
  have g: "get_object 1 1 example_db \<noteq> None"
    by (simp add: get_object_def get_queryset_def example_db_budgets example_budget_def)
  have ok: "amounts_ok example_db"
    by (simp add: amounts_ok_def example_db_budgets example_budget_def ndigits.simps)
  have qa: "quantize ?a = \<lparr>negative = False, coefficient = 500000, exponent = - 2\<rparr>"
    and qb: "quantize ?b = \<lparr>negative = False, coefficient = 600000, exponent = - 2\<rparr>"
    by (simp_all add: quantize_def decimal_places_def)
  have 1: "rejected_on ''initial_amount''
     (create (Some 1) 1000 (example_post\<lparr>data_initial_amount := Parsed ?bad\<rparr>) example_db)
     example_db"
    using initial_amount_two_places [where a = ?bad and u = 1 and now = 1000 and db = example_db
        and d = "example_post\<lparr>data_initial_amount := Parsed ?bad\<rparr>"]
    by simp
  have 2: "rejected_on ''initial_amount''
     (update True (Some 1) 1000 1 (example_patch\<lparr>data_initial_amount := Parsed ?bad\<rparr>)
        example_db) example_db"
    using initial_amount_two_places [where a = ?bad and u = 1 and now = 1000 and db = example_db
        and pk = 1 and partial = True
        and d = "example_patch\<lparr>data_initial_amount := Parsed ?bad\<rparr>"] g
    by simp
  have c: "?C = (fst ?C, snd ?C)" by simp
  have "\<exists>x b. data_initial_amount (example_post\<lparr>data_initial_amount := Parsed ?a\<rparr>) = Parsed x \<and>
      data (fst ?C) = BudgetBody b \<and> budgets (snd ?C) = budgets example_db @ [b] \<and>
      initial_amount b = quantize x"
    using initial_amount_two_places [where u = 1 and now = 1000 and db = example_db
        and d = "example_post\<lparr>data_initial_amount := Parsed ?a\<rparr>"]
      c example_amount_create_status
    by blast
  then have 3: "\<exists>b. data (fst ?C) = BudgetBody b \<and> budgets (snd ?C) = budgets example_db @ [b] \<and>
      initial_amount b = \<lparr>negative = False, coefficient = 500000, exponent = - 2\<rparr>"
    using qa by auto
  have u: "?U = (fst ?U, snd ?U)" by simp
  have "\<exists>b. data (fst ?U) = BudgetBody b \<and> b \<in> set (budgets (snd ?U)) \<and>
      initial_amount b = quantize ?b"
    using initial_amount_two_places [where u = 1 and now = 1000 and db = example_db
        and pk = 1 and partial = True and a = ?b
        and d = "example_patch\<lparr>data_initial_amount := Parsed ?b\<rparr>"]
      u example_amount_update_status
    by (simp del: prod.collapse) blast
  then have 4: "\<exists>b. data (fst ?U) = BudgetBody b \<and> b \<in> set (budgets (snd ?U)) \<and>
      initial_amount b = \<lparr>negative = False, coefficient = 600000, exponent = - 2\<rparr>"
    unfolding qb .
  have 5: "amounts_ok (snd ?C)"
    using initial_amount_two_places [where db = example_db and request_user = "Some 1"
        and now = 1000 and d = "example_post\<lparr>data_initial_amount := Parsed ?a\<rparr>"] ok
    by blast
  show ?thesis using 1 2 3 4 ok 5 by blast
qed

section \<open>Properties of the budget list\<close>

lemma goes_before_precedes: "goes_before tie a b \<Longrightarrow> precedes a b"
  by (auto simp: goes_before_def precedes_def)

lemma not_goes_before_precedes: "\<not> goes_before tie a b \<Longrightarrow> precedes b a"
  by (auto simp: goes_before_def precedes_def)

lemma precedes_trans: "precedes a b \<Longrightarrow> precedes b c \<Longrightarrow> precedes a c"
  by (auto simp: precedes_def)

lemma set_insert_ordered: "set (insert_ordered tie x xs) = insert x (set xs)"
  by (induction xs) auto

lemma mset_insert_ordered: "mset (insert_ordered tie x xs) = add_mset x (mset xs)"
  by (induction xs) auto

lemma sorted_insert_ordered:
  "sorted_wrt precedes xs \<Longrightarrow> sorted_wrt precedes (insert_ordered tie x xs)"
proof (induction xs)
  case Nil
  then show ?case by simp
next
  case (Cons y ys)
  show ?case
  proof (cases "goes_before tie x y")
    case True
    then have xy: "precedes x y" by (rule goes_before_precedes)
    then have "\<forall>z\<in>set ys. precedes x z"
      using Cons.prems by (auto intro: precedes_trans)
    with True xy Cons.prems show ?thesis by simp
  next
    case False
    then have "precedes y x" by (rule not_goes_before_precedes)
    with False Cons show ?thesis by (auto simp: set_insert_ordered)
  qed
qed

lemma mset_ordering: "mset (meta_ordering tie rows) = mset rows"
  by (induction rows) (simp_all add: meta_ordering_def mset_insert_ordered)

lemma sorted_ordering: "sorted_wrt precedes (meta_ordering tie rows)"
  by (induction rows) (simp_all add: meta_ordering_def sorted_insert_ordered)

lemma length_ordering: "length (meta_ordering tie rows) = length rows"
  using mset_ordering [of tie rows] by (metis size_mset)

lemma set_ordering: "set (meta_ordering tie rows) = set rows"
  using mset_ordering [of tie rows] by (metis set_mset_mset)

lemma set_paginate: "paginate n q rows = Some shown \<Longrightarrow> set shown \<subseteq> set rows"
  by (auto simp: paginate_def split: option.splits dest: in_set_takeD in_set_dropD)

lemma sorted_paginate:
  "sorted_wrt P rows \<Longrightarrow> paginate n q rows = Some shown \<Longrightarrow> sorted_wrt P shown"
  by (auto simp: paginate_def sorted_wrt_take sorted_wrt_drop split: option.splits)

lemma list_budgets_cases:
  "(page_size = 0 \<and>
      list_budgets tie page_size page (Some u) db =
        \<lparr>status = HTTP_200_OK, data = BudgetList (meta_ordering tie (get_queryset u db))\<rparr>) \<or>
   (0 < page_size \<and> page_number page_size (length (get_queryset u db)) page = None \<and>
      list_budgets tie page_size page (Some u) db = invalid_page) \<or>
   (\<exists>n. 0 < page_size \<and> page_number page_size (length (get_queryset u db)) page = Some n \<and>
      list_budgets tie page_size page (Some u) db =
        \<lparr>status = HTTP_200_OK,
         data = BudgetPage (length (get_queryset u db))
                  (take page_size (drop ((n - 1) * page_size)
                     (meta_ordering tie (get_queryset u db))))\<rparr>)"
  by (cases "page_number page_size (length (get_queryset u db)) page")
    (auto simp: list_budgets_def paginate_def Let_def length_ordering)

lemma listed_list_budgets:
  "set (listed (data (list_budgets tie page_size page (Some u) db))) \<subseteq> set (get_queryset u db) \<and>
   sorted_wrt precedes (listed (data (list_budgets tie page_size page (Some u) db)))"
proof -
  let ?q = "meta_ordering tie (get_queryset u db)"
  consider "listed (data (list_budgets tie page_size page (Some u) db)) = ?q"
    | "listed (data (list_budgets tie page_size page (Some u) db)) = []"
    | shown where "listed (data (list_budgets tie page_size page (Some u) db)) = shown"
      "paginate page_size page ?q = Some shown"
    using list_budgets_cases [of page_size tie page u db]
    by (auto simp: listed_def invalid_page_def paginate_def length_ordering)
  then show ?thesis
  proof cases
    case 1
    then show ?thesis by (simp add: set_ordering sorted_ordering)
  next
    case 2
    then show ?thesis by simp
  next
    case 3
    then show ?thesis
      using set_paginate [of page_size page ?q shown]
        sorted_paginate [OF sorted_ordering, of page_size page tie "get_queryset u db" shown]
      by (simp add: set_ordering)
  qed
qed

text \<open>
  C7. Whatever the list view shows an authenticated user, a page or the whole list, every
  budget shown is a row of the table owned by that user, and along it the dates descend
  and, where two dates are equal, the creation times descend; this holds for every page
  size, every page asked for and every order the database gives to rows with equal keys.
  With no page size the view answers 200 and the whole ordered queryset; with one, it
  answers 404 for an invalid page and otherwise 200 with that page and the count of the
  queryset, and a first page as long as the queryset holds all of it. The ordered queryset
  holds exactly the rows the user owns, each as often as the table does.
\<close>

theorem list_budgets_owner_and_order:
  "(\<forall>b\<in>set (listed (data (list_budgets tie page_size page (Some u) db))).
      user b = u \<and> b \<in> set (budgets db)) \<and>
   sorted_wrt (\<lambda>a b. date b < date a \<or> (date a = date b \<and> created_at b \<le> created_at a))
     (listed (data (list_budgets tie page_size page (Some u) db))) \<and>
   (page_size = 0 \<longrightarrow>
      list_budgets tie page_size page (Some u) db =
        \<lparr>status = HTTP_200_OK, data = BudgetList (meta_ordering tie (get_queryset u db))\<rparr>) \<and>
   (0 < page_size \<and> page_number page_size (length (get_queryset u db)) page = None \<longrightarrow>
      list_budgets tie page_size page (Some u) db = invalid_page) \<and>
   (\<forall>n. 0 < page_size \<and> page_number page_size (length (get_queryset u db)) page = Some n \<longrightarrow>
      list_budgets tie page_size page (Some u) db =
        \<lparr>status = HTTP_200_OK,
         data = BudgetPage (length (get_queryset u db))
                  (take page_size (drop ((n - 1) * page_size)
                     (meta_ordering tie (get_queryset u db))))\<rparr>) \<and>
   (0 < page_size \<and> length (get_queryset u db) \<le> page_size \<longrightarrow>
      list_budgets tie page_size PageAbsent (Some u) db =
        \<lparr>status = HTTP_200_OK,
         data = BudgetPage (length (get_queryset u db))
                  (meta_ordering tie (get_queryset u db))\<rparr>) \<and>
   mset (meta_ordering tie (get_queryset u db)) = mset (filter (\<lambda>b. user b = u) (budgets db))"
proof -
  note l = listed_list_budgets [of tie page_size page u db]
  have 1: "\<forall>b\<in>set (listed (data (list_budgets tie page_size page (Some u) db))).
      user b = u \<and> b \<in> set (budgets db)"
    using l by (auto simp: get_queryset_def)
  have 2: "sorted_wrt (\<lambda>a b. date b < date a \<or> (date a = date b \<and> created_at b \<le> created_at a))
     (listed (data (list_budgets tie page_size page (Some u) db)))"
    using l by (simp add: precedes_def [abs_def])
  have 3: "page_size = 0 \<longrightarrow>
      list_budgets tie page_size page (Some u) db =
        \<lparr>status = HTTP_200_OK, data = BudgetList (meta_ordering tie (get_queryset u db))\<rparr>"
    by (simp add: list_budgets_def)
  have 4: "0 < page_size \<and> page_number page_size (length (get_queryset u db)) page = None \<longrightarrow>
      list_budgets tie page_size page (Some u) db = invalid_page"
    by (simp add: list_budgets_def paginate_def Let_def length_ordering)
  have 5: "\<forall>n. 0 < page_size \<and> page_number page_size (length (get_queryset u db)) page = Some n \<longrightarrow>
      list_budgets tie page_size page (Some u) db =
        \<lparr>status = HTTP_200_OK,
         data = BudgetPage (length (get_queryset u db))
                  (take page_size (drop ((n - 1) * page_size)
                     (meta_ordering tie (get_queryset u db))))\<rparr>"
    by (simp add: list_budgets_def paginate_def Let_def length_ordering)
  have 6: "0 < page_size \<and> length (get_queryset u db) \<le> page_size \<longrightarrow>
      list_budgets tie page_size PageAbsent (Some u) db =
        \<lparr>status = HTTP_200_OK,
         data = BudgetPage (length (get_queryset u db))
                  (meta_ordering tie (get_queryset u db))\<rparr>"
    by (simp add: list_budgets_def Let_def length_ordering page_number_def paginate_def)
  have 7: "mset (meta_ordering tie (get_queryset u db)) =
      mset (filter (\<lambda>b. user b = u) (budgets db))"
    by (simp add: mset_ordering get_queryset_def)
  show ?thesis using 1 2 3 4 5 6 7 by blast
qed


lemma example_queryset:
  "meta_ordering example_tie (get_queryset 1 example_db) =
     [example_budget 3 1 20 300, example_budget 4 1 20 250, example_budget 1 1 10 100]"
  "length (get_queryset 1 example_db) = 3"
  by (simp_all add: meta_ordering_def get_queryset_def example_db_def example_budget_def
      goes_before_def example_tie_def)

lemma example_pages:
  "page_number 2 3 (PageNumber 1) = Some 1" "page_number 2 3 (PageNumber 2) = Some 2"
  "page_number 2 3 PageLast = Some 2" "page_number 2 3 (PageNumber 3) = None"
  "page_number 2 3 (PageNumber 0) = None" "page_number 2 3 PageNotANumber = None"
  by (simp_all add: page_number_def num_pages_def)

theorem list_budgets_owner_and_order_witness:
  "list_budgets example_tie 2 (PageNumber 1) (Some 1) example_db =
     \<lparr>status = HTTP_200_OK,
      data = BudgetPage 3 [example_budget 3 1 20 300, example_budget 4 1 20 250]\<rparr> \<and>
   list_budgets example_tie 2 PageLast (Some 1) example_db =
     \<lparr>status = HTTP_200_OK, data = BudgetPage 3 [example_budget 1 1 10 100]\<rparr> \<and>
   list_budgets example_tie 2 (PageNumber 3) (Some 1) example_db = invalid_page \<and>
   list_budgets example_tie 2 (PageNumber 0) (Some 1) example_db = invalid_page \<and>
   list_budgets example_tie 0 PageAbsent (Some 1) example_db =
     \<lparr>status = HTTP_200_OK,
      data = BudgetList [example_budget 3 1 20 300, example_budget 4 1 20 250,
                         example_budget 1 1 10 100]\<rparr> \<and>
   list_budgets example_tie 5 PageAbsent (Some 1) example_db =
     \<lparr>status = HTTP_200_OK,
      data = BudgetPage 3 [example_budget 3 1 20 300, example_budget 4 1 20 250,
                           example_budget 1 1 10 100]\<rparr> \<and>
   user (example_budget 3 1 20 300) = 1 \<and> user (example_budget 4 1 20 250) = 1 \<and>
   user (example_budget 1 1 10 100) = 1"
proof -
  have a: "list_budgets example_tie 2 (PageNumber 1) (Some 1) example_db =
     \<lparr>status = HTTP_200_OK,
      data = BudgetPage 3 [example_budget 3 1 20 300, example_budget 4 1 20 250]\<rparr>"
    using list_budgets_owner_and_order [of example_tie 2 "PageNumber 1" 1 example_db]
    unfolding example_queryset example_pages by simp
  have b: "list_budgets example_tie 2 PageLast (Some 1) example_db =
     \<lparr>status = HTTP_200_OK, data = BudgetPage 3 [example_budget 1 1 10 100]\<rparr>"
    using list_budgets_owner_and_order [of example_tie 2 PageLast 1 example_db]
    unfolding example_queryset example_pages by simp
  have c: "list_budgets example_tie 2 (PageNumber 3) (Some 1) example_db = invalid_page"
    using list_budgets_owner_and_order [of example_tie 2 "PageNumber 3" 1 example_db]
    unfolding example_queryset example_pages by simp
  have d: "list_budgets example_tie 2 (PageNumber 0) (Some 1) example_db = invalid_page"
    using list_budgets_owner_and_order [of example_tie 2 "PageNumber 0" 1 example_db]
    unfolding example_queryset example_pages by simp
  have e: "list_budgets example_tie 0 PageAbsent (Some 1) example_db =
     \<lparr>status = HTTP_200_OK,
      data = BudgetList [example_budget 3 1 20 300, example_budget 4 1 20 250,
                         example_budget 1 1 10 100]\<rparr>"
    using list_budgets_owner_and_order [of example_tie 0 PageAbsent 1 example_db]
    unfolding example_queryset by simp
  have f: "list_budgets example_tie 5 PageAbsent (Some 1) example_db =
     \<lparr>status = HTTP_200_OK,
      data = BudgetPage 3 [example_budget 3 1 20 300, example_budget 4 1 20 250,
                           example_budget 1 1 10 100]\<rparr>"
    using list_budgets_owner_and_order [of example_tie 5 PageAbsent 1 example_db]
    unfolding example_queryset by simp
  show ?thesis using a b c d e f by (simp add: example_budget_def)
qed

section \<open>Properties of registration\<close>

lemma then_validate_Inr:
  "then_validate f r = Inr w \<Longrightarrow> \<exists>v. r = Inr v \<and> f v = Inr w"
  by (auto simp: then_validate_def one_error_def split: sum.splits)

lemma then_validate_Inl: "then_validate f r = Inl errors \<Longrightarrow> (\<forall>es. r = Inl es \<longrightarrow> es \<noteq> []) \<Longrightarrow> errors \<noteq> []"
  by (auto simp: then_validate_def one_error_def split: sum.splits)

lemma run_char_field_Inr:
  assumes "run_char_field rm bm vals f inp = Inr v"
  shows "\<exists>x. inp = Parsed x \<and> strip x \<noteq> [] \<and> vals (strip x) = [] \<and> clean (strip x) \<and>
           f (strip x) = Inr v"
proof -
  obtain x where x: "inp = Parsed x" and t: "then_validate f (CharField False bm vals x) = Inr v"
    using assms by (auto simp: run_char_field_def split: field_input.splits)
  obtain w where w: "CharField False bm vals x = Inr w" and f: "f w = Inr v"
    using then_validate_Inr [OF t] by blast
  show ?thesis using x CharField_Inr [OF w] f by (auto simp: clean_def)
qed

lemma run_char_field_Inl:
  assumes "run_char_field rm bm vals f inp = Inl errors"
  shows "errors \<noteq> []"
proof (cases inp)
  case Absent
  with assms show ?thesis by (auto simp: run_char_field_def)
next
  case Unparsable
  with assms show ?thesis by (auto simp: run_char_field_def)
next
  case (Parsed x)
  with assms have "then_validate f (CharField False bm vals x) = Inl errors"
    by (simp add: run_char_field_def)
  then show ?thesis by (rule then_validate_Inl) (auto dest: CharField_Inl)
qed

lemma run_char_field_accepts:
  assumes "strip x \<noteq> []" and "vals (strip x) = []" and "clean (strip x)"
    and "f (strip x) = Inr v"
  shows "run_char_field rm bm vals f (Parsed x) = Inr v"
  using assms
  by (simp add: run_char_field_def CharField_def Let_def then_validate_def one_error_def
      clean_def)

lemma registration_is_valid_Inl:
  assumes "registration_is_valid lib db d = Inl errors"
  shows "errors \<noteq> []"
proof -
  let ?n = "run_char_field ''Username is required.'' ''Username cannot be blank.''
                (username_validators lib (users db)) (validate_username db) (data_username d)"
  let ?e = "run_char_field ''Email is required.'' ''Email cannot be blank.''
                (email_validators lib (users db)) (validate_email db) (data_email d)"
  let ?p = "run_char_field ''Password is required.'' ''Password cannot be blank.''
                (\<lambda>x. validate_password lib x @
                      min_length 8 ''Password must be at least 8 characters long.'' x)
                Inr (data_password d)"
  let ?c = "run_char_field ''Password confirmation is required.''
                ''Password confirmation cannot be blank.''
                (min_length 8 ''Password must be at least 8 characters long.'')
                Inr (data_password_confirm d)"
  show ?thesis
  proof (cases "isl ?n \<or> isl ?e \<or> isl ?p \<or> isl ?c")
    case True
    have ne: "\<And>name r es. r = Inl es \<Longrightarrow> field_errors name r \<noteq> []"
      by (simp add: field_errors_def)
    from True have "field_errors ''username'' ?n @ field_errors ''email'' ?e @
        field_errors ''password'' ?p @ field_errors ''password_confirm'' ?c \<noteq> []"
      by (auto simp: isl_def dest: ne)
    moreover have "registration_is_valid lib db d =
        Inl (field_errors ''username'' ?n @ field_errors ''email'' ?e @
        field_errors ''password'' ?p @ field_errors ''password_confirm'' ?c)"
      using True by (auto simp: registration_is_valid_def Let_def isl_def split: sum.splits)
    ultimately show ?thesis using assms by simp
  next
    case False
    obtain n where "?n = Inr n" using False by (cases ?n) auto
    moreover obtain e where "?e = Inr e" using False by (cases ?e) auto
    moreover obtain p where "?p = Inr p" using False by (cases ?p) auto
    moreover obtain c where "?c = Inr c" using False by (cases ?c) auto
    ultimately have "registration_is_valid lib db d =
        validate \<lparr>reg_username = n, reg_email = e, reg_password = p, reg_password_confirm = c\<rparr>"
      by (simp add: registration_is_valid_def Let_def)
    with assms show ?thesis by (auto simp: validate_def split: if_splits)
  qed
qed

lemma registration_is_valid_Inr:
  assumes "registration_is_valid lib db d = Inr v"
  shows "\<exists>n e p c. data_username d = Parsed n \<and> data_email d = Parsed e \<and>
           data_password d = Parsed p \<and> data_password_confirm d = Parsed c \<and>
           v = \<lparr>reg_username = strip n, reg_email = strip e, reg_password = strip p,
                reg_password_confirm = strip c\<rparr> \<and>
           strip p = strip c \<and>
           strip n \<notin> set (map username (users db)) \<and>
           strip e \<notin> set (map email (users db)) \<and>
           8 \<le> length (strip p) \<and>
           validate_password lib (strip p) = []"
proof -
  let ?n = "run_char_field ''Username is required.'' ''Username cannot be blank.''
                (username_validators lib (users db)) (validate_username db) (data_username d)"
  let ?e = "run_char_field ''Email is required.'' ''Email cannot be blank.''
                (email_validators lib (users db)) (validate_email db) (data_email d)"
  let ?p = "run_char_field ''Password is required.'' ''Password cannot be blank.''
                (\<lambda>x. validate_password lib x @
                      min_length 8 ''Password must be at least 8 characters long.'' x)
                Inr (data_password d)"
  let ?c = "run_char_field ''Password confirmation is required.''
                ''Password confirmation cannot be blank.''
                (min_length 8 ''Password must be at least 8 characters long.'')
                Inr (data_password_confirm d)"
  obtain n e p c where r: "?n = Inr n" "?e = Inr e" "?p = Inr p" "?c = Inr c"
    and v: "validate \<lparr>reg_username = n, reg_email = e, reg_password = p,
        reg_password_confirm = c\<rparr> = Inr v"
    using assms by (auto simp: registration_is_valid_def Let_def split: sum.splits)
  from v have v': "v = \<lparr>reg_username = n, reg_email = e, reg_password = p,
        reg_password_confirm = c\<rparr>" and pc: "p = c"
    by (auto simp: validate_def split: if_splits)
  obtain xn where xn: "data_username d = Parsed xn" "n = strip xn"
    "strip xn \<notin> set (map username (users db))"
    using run_char_field_Inr [OF r(1)] by (auto simp: validate_username_def split: if_splits)
  obtain xe where xe: "data_email d = Parsed xe" "e = strip xe"
    "strip xe \<notin> set (map email (users db))"
    using run_char_field_Inr [OF r(2)] by (auto simp: validate_email_def split: if_splits)
  obtain xp where xp: "data_password d = Parsed xp" "p = strip xp" "8 \<le> length (strip xp)"
    "validate_password lib (strip xp) = []"
    using run_char_field_Inr [OF r(3)] by (auto simp: min_length_def split: if_splits)
  obtain xc where xc: "data_password_confirm d = Parsed xc" "c = strip xc"
    using run_char_field_Inr [OF r(4)] by auto
  show ?thesis using v' pc xn xe xp xc by auto
qed

lemma registration_is_valid_accepts:
  assumes "data_username d = Parsed n" and "data_email d = Parsed e"
    and "data_password d = Parsed p" and "data_password_confirm d = Parsed c"
    and "strip n \<noteq> []" and "strip e \<noteq> []" and "8 \<le> length (strip p)" and "strip p = strip c"
    and "clean (strip n)" and "clean (strip e)" and "clean (strip p)"
    and "username_validators lib (users db) (strip n) = []"
    and "email_validators lib (users db) (strip e) = []"
    and "validate_password lib (strip p) = []"
    and "strip n \<notin> set (map username (users db))"
    and "strip e \<notin> set (map email (users db))"
  shows "registration_is_valid lib db d =
     Inr \<lparr>reg_username = strip n, reg_email = strip e, reg_password = strip p,
          reg_password_confirm = strip c\<rparr>"
proof -
  have p0: "strip p \<noteq> []" using assms(7) by auto
  have 1: "run_char_field ''Username is required.'' ''Username cannot be blank.''
      (username_validators lib (users db)) (validate_username db) (data_username d) =
      Inr (strip n)"
    unfolding assms(1) using assms(5,12,9,15)
    by (intro run_char_field_accepts) (simp_all add: validate_username_def)
  have 2: "run_char_field ''Email is required.'' ''Email cannot be blank.''
      (email_validators lib (users db)) (validate_email db) (data_email d) = Inr (strip e)"
    unfolding assms(2) using assms(6,13,10,16)
    by (intro run_char_field_accepts) (simp_all add: validate_email_def)
  have 3: "run_char_field ''Password is required.'' ''Password cannot be blank.''
      (\<lambda>x. validate_password lib x @
            min_length 8 ''Password must be at least 8 characters long.'' x)
      Inr (data_password d) = Inr (strip p)"
    unfolding assms(3) using p0 assms(7,11,14)
    by (intro run_char_field_accepts) (simp_all add: min_length_def)
  have 4: "run_char_field ''Password confirmation is required.''
      ''Password confirmation cannot be blank.''
      (min_length 8 ''Password must be at least 8 characters long.'')
      Inr (data_password_confirm d) = Inr (strip c)"
    unfolding assms(4) using p0 assms(7,11) unfolding assms(8)
    by (intro run_char_field_accepts) (simp_all add: min_length_def)
  show ?thesis
    unfolding registration_is_valid_def Let_def 1 2 3 4
    by (simp add: validate_def assms(8))
qed


lemma register_Inl:
  "registration_is_valid lib db d = Inl errors \<Longrightarrow> rejected (register lib d db) db"
  using registration_is_valid_Inl [of lib db d errors]
  by (simp add: register_def rejected_def)

lemma register_Inr:
  assumes "registration_is_valid lib db d = Inr v"
  shows "(normalize_username lib (reg_username v) \<in> set (map username (users db)) \<or>
          normalize_email lib (reg_email v) \<in> set (map email (users db)) \<longrightarrow>
            register lib d db = (server_error, db)) \<and>
         (normalize_username lib (reg_username v) \<notin> set (map username (users db)) \<and>
          normalize_email lib (reg_email v) \<notin> set (map email (users db)) \<longrightarrow>
            register lib d db =
              (\<lparr>status = HTTP_201_CREATED,
                data = Fields [(''username'', normalize_username lib (reg_username v)),
                               (''email'', normalize_email lib (reg_email v))]\<rparr>,
               db\<lparr>users := users db @
                     [\<lparr>user_id = Suc (user_seq db),
                       username = normalize_username lib (reg_username v),
                       email = normalize_email lib (reg_email v),
                       password = make_password lib (reg_password v),
                       first_name = [], last_name = []\<rparr>],
                   user_seq := Suc (user_seq db)\<rparr>))"
  using assms
  by (simp add: register_def create_user_def registration_representation_def Let_def)

text \<open>
  C3, as amended. The values that \<open>validate_username\<close>, \<open>validate_email\<close> and \<open>validate\<close>
  compare are the submitted ones stripped. Registration is rejected (400 with errors,
  nothing stored) when the stripped username is that of an existing user, when the
  stripped e-mail address is that of an existing user, when the stripped password and the
  stripped confirmation differ, and when the password, stripped or as submitted, has fewer
  than 8 characters. An answer 201 comes with one user appended, whose stored password is
  \<open>make_password\<close> of the stripped password, and shows the username and the e-mail address
  of that user; it is given whenever the four stripped values are not blank, pass the
  validators and the password policy, agree on the password, and neither they nor their
  normalised forms repeat an existing username or address. No answer of \<open>Fields\<close> has a
  \<open>password\<close> or a \<open>password_confirm\<close> key.
\<close>

theorem register_contract:
  "(\<forall>n. data_username d = Parsed n \<and> strip n \<in> set (map username (users db)) \<longrightarrow>
      rejected (register lib d db) db) \<and>
   (\<forall>e. data_email d = Parsed e \<and> strip e \<in> set (map email (users db)) \<longrightarrow>
      rejected (register lib d db) db) \<and>
   (\<forall>p c. data_password d = Parsed p \<and> data_password_confirm d = Parsed c \<and>
      strip p \<noteq> strip c \<longrightarrow> rejected (register lib d db) db) \<and>
   (\<forall>p. data_password d = Parsed p \<and> (length p < 8 \<or> length (strip p) < 8) \<longrightarrow>
      rejected (register lib d db) db) \<and>
   (status (fst (register lib d db)) = HTTP_201_CREATED \<longrightarrow>
      (\<exists>n e p c. data_username d = Parsed n \<and> data_email d = Parsed e \<and>
         data_password d = Parsed p \<and> data_password_confirm d = Parsed c \<and>
         strip p = strip c \<and>
         register lib d db =
           (\<lparr>status = HTTP_201_CREATED,
             data = Fields [(''username'', normalize_username lib (strip n)),
                            (''email'', normalize_email lib (strip e))]\<rparr>,
            db\<lparr>users := users db @
                  [\<lparr>user_id = Suc (user_seq db), username = normalize_username lib (strip n),
                    email = normalize_email lib (strip e),
                    password = make_password lib (strip p),
                    first_name = [], last_name = []\<rparr>],
                user_seq := Suc (user_seq db)\<rparr>))) \<and>
   (\<forall>n e p c. data_username d = Parsed n \<and> data_email d = Parsed e \<and>
      data_password d = Parsed p \<and> data_password_confirm d = Parsed c \<and>
      strip n \<noteq> [] \<and> strip e \<noteq> [] \<and> 8 \<le> length (strip p) \<and> strip p = strip c \<and>
      clean (strip n) \<and> clean (strip e) \<and> clean (strip p) \<and>
      username_validators lib (users db) (strip n) = [] \<and>
      email_validators lib (users db) (strip e) = [] \<and>
      validate_password lib (strip p) = [] \<and>
      strip n \<notin> set (map username (users db)) \<and>
      strip e \<notin> set (map email (users db)) \<and>
      normalize_username lib (strip n) \<notin> set (map username (users db)) \<and>
      normalize_email lib (strip e) \<notin> set (map email (users db)) \<longrightarrow>
      status (fst (register lib d db)) = HTTP_201_CREATED) \<and>
   (\<forall>fields. data (fst (register lib d db)) = Fields fields \<longrightarrow>
      ''password'' \<notin> set (map fst fields) \<and> ''password_confirm'' \<notin> set (map fst fields))"
proof -
  have len: "\<And>p. length p < 8 \<or> length (strip p) < 8 \<Longrightarrow> length (strip p) < 8"
    using length_strip by (meson le_less_trans)
  have 6: "\<forall>n e p c. data_username d = Parsed n \<and> data_email d = Parsed e \<and>
      data_password d = Parsed p \<and> data_password_confirm d = Parsed c \<and>
      strip n \<noteq> [] \<and> strip e \<noteq> [] \<and> 8 \<le> length (strip p) \<and> strip p = strip c \<and>
      clean (strip n) \<and> clean (strip e) \<and> clean (strip p) \<and>
      username_validators lib (users db) (strip n) = [] \<and>
      email_validators lib (users db) (strip e) = [] \<and>
      validate_password lib (strip p) = [] \<and>
      strip n \<notin> set (map username (users db)) \<and>
      strip e \<notin> set (map email (users db)) \<and>
      normalize_username lib (strip n) \<notin> set (map username (users db)) \<and>
      normalize_email lib (strip e) \<notin> set (map email (users db)) \<longrightarrow>
      status (fst (register lib d db)) = HTTP_201_CREATED"
  proof (intro allI impI, elim conjE)
    fix n e p c
    assume a: "data_username d = Parsed n" "data_email d = Parsed e"
      "data_password d = Parsed p" "data_password_confirm d = Parsed c"
      "strip n \<noteq> []" "strip e \<noteq> []" "8 \<le> length (strip p)" "strip p = strip c"
      "clean (strip n)" "clean (strip e)" "clean (strip p)"
      "username_validators lib (users db) (strip n) = []"
      "email_validators lib (users db) (strip e) = []"
      "validate_password lib (strip p) = []"
      "strip n \<notin> set (map username (users db))"
      "strip e \<notin> set (map email (users db))"
      and b: "normalize_username lib (strip n) \<notin> set (map username (users db))"
      "normalize_email lib (strip e) \<notin> set (map email (users db))"
    note v = registration_is_valid_accepts [OF a]
    show "status (fst (register lib d db)) = HTTP_201_CREATED"
      using register_Inr [OF v] b by simp
  qed
  show ?thesis
  proof (cases "registration_is_valid lib db d")
    case (Inl errors)
    then have r: "rejected (register lib d db) db" by (rule register_Inl)
    then have "status (fst (register lib d db)) \<noteq> HTTP_201_CREATED"
      and "\<forall>fields. data (fst (register lib d db)) \<noteq> Fields fields"
      by (auto simp: rejected_def split: body.splits)
    with r 6 show ?thesis by blast
  next
    case (Inr v)
    obtain n e p c where f: "data_username d = Parsed n" "data_email d = Parsed e"
      "data_password d = Parsed p" "data_password_confirm d = Parsed c"
      "v = \<lparr>reg_username = strip n, reg_email = strip e, reg_password = strip p,
            reg_password_confirm = strip c\<rparr>"
      "strip p = strip c" "strip n \<notin> set (map username (users db))"
      "strip e \<notin> set (map email (users db))" "8 \<le> length (strip p)"
      using registration_is_valid_Inr [OF Inr] by blast
    note g = register_Inr [OF Inr]
    have 1: "\<forall>n. data_username d = Parsed n \<and> strip n \<in> set (map username (users db)) \<longrightarrow>
        rejected (register lib d db) db" using f by auto
    have 2: "\<forall>e. data_email d = Parsed e \<and> strip e \<in> set (map email (users db)) \<longrightarrow>
        rejected (register lib d db) db" using f by auto
    have 3: "\<forall>p c. data_password d = Parsed p \<and> data_password_confirm d = Parsed c \<and>
        strip p \<noteq> strip c \<longrightarrow> rejected (register lib d db) db" using f by auto
    have 4: "\<forall>p. data_password d = Parsed p \<and> (length p < 8 \<or> length (strip p) < 8) \<longrightarrow>
        rejected (register lib d db) db"
      using f(3,9) len by fastforce
    have col: "normalize_username lib (reg_username v) \<in> set (map username (users db)) \<or>
        normalize_email lib (reg_email v) \<in> set (map email (users db)) \<Longrightarrow>
        register lib d db = (server_error, db)"
      using g by blast
    have 5: "status (fst (register lib d db)) = HTTP_201_CREATED \<longrightarrow>
      (\<exists>n e p c. data_username d = Parsed n \<and> data_email d = Parsed e \<and>
         data_password d = Parsed p \<and> data_password_confirm d = Parsed c \<and>
         strip p = strip c \<and>
         register lib d db =
           (\<lparr>status = HTTP_201_CREATED,
             data = Fields [(''username'', normalize_username lib (strip n)),
                            (''email'', normalize_email lib (strip e))]\<rparr>,
            db\<lparr>users := users db @
                  [\<lparr>user_id = Suc (user_seq db), username = normalize_username lib (strip n),
                    email = normalize_email lib (strip e),
                    password = make_password lib (strip p),
                    first_name = [], last_name = []\<rparr>],
                user_seq := Suc (user_seq db)\<rparr>))"
    proof
      assume s: "status (fst (register lib d db)) = HTTP_201_CREATED"
      have "\<not> (normalize_username lib (reg_username v) \<in> set (map username (users db)) \<or>
          normalize_email lib (reg_email v) \<in> set (map email (users db)))"
      proof
        assume "normalize_username lib (reg_username v) \<in> set (map username (users db)) \<or>
          normalize_email lib (reg_email v) \<in> set (map email (users db))"
        then have "register lib d db = (server_error, db)" by (rule col)
        with s show False by (simp add: server_error_def)
      qed
      then have "register lib d db =
              (\<lparr>status = HTTP_201_CREATED,
                data = Fields [(''username'', normalize_username lib (reg_username v)),
                               (''email'', normalize_email lib (reg_email v))]\<rparr>,
               db\<lparr>users := users db @
                     [\<lparr>user_id = Suc (user_seq db),
                       username = normalize_username lib (reg_username v),
                       email = normalize_email lib (reg_email v),
                       password = make_password lib (reg_password v),
                       first_name = [], last_name = []\<rparr>],
                   user_seq := Suc (user_seq db)\<rparr>)"
        using g by blast
      then show "\<exists>n e p c. data_username d = Parsed n \<and> data_email d = Parsed e \<and>
         data_password d = Parsed p \<and> data_password_confirm d = Parsed c \<and>
         strip p = strip c \<and>
         register lib d db =
           (\<lparr>status = HTTP_201_CREATED,
             data = Fields [(''username'', normalize_username lib (strip n)),
                            (''email'', normalize_email lib (strip e))]\<rparr>,
            db\<lparr>users := users db @
                  [\<lparr>user_id = Suc (user_seq db), username = normalize_username lib (strip n),
                    email = normalize_email lib (strip e),
                    password = make_password lib (strip p),
                    first_name = [], last_name = []\<rparr>],
                user_seq := Suc (user_seq db)\<rparr>)"
        using f by auto
    qed
    have 7: "\<forall>fields. data (fst (register lib d db)) = Fields fields \<longrightarrow>
        ''password'' \<notin> set (map fst fields) \<and> ''password_confirm'' \<notin> set (map fst fields)"
    proof (cases "normalize_username lib (reg_username v) \<in> set (map username (users db)) \<or>
          normalize_email lib (reg_email v) \<in> set (map email (users db))")
      case True
      then have "register lib d db = (server_error, db)" by (rule col)
      then show ?thesis by (simp add: server_error_def)
    next
      case False
      then show ?thesis using g by auto
    qed
    show ?thesis using 1 2 3 4 5 6 7 by blast
  qed
qed


lemma example_users:
  "map username (users example_db) = [str ''testuser'', str ''testuser2'']"
  "map email (users example_db) = [str ''testuser@example.com'', str ''testuser2@example.com'']"
  by (simp_all add: example_db_def example_user_def str_def)

lemma example_strips:
  "strip (str ''newuser'') = str ''newuser''"
  "strip (str ''newuser@example.com'') = str ''newuser@example.com''"
  "strip (str ''SecurePass123!'') = str ''SecurePass123!''"
  "strip (str '' SecurePass123!'') = str ''SecurePass123!''"
  "strip (str ''testuser'') = str ''testuser''"
  "strip (str ''testuser@example.com'') = str ''testuser@example.com''"
  "strip (str ''DifferentPass456!'') = str ''DifferentPass456!''"
  by (simp_all add: strip_def str_def isspace_def)

lemma example_clean:
  "clean (str ''newuser'')" "clean (str ''newuser@example.com'')" "clean (str ''SecurePass123!'')"
  by (simp_all add: clean_def prohibit_null_characters_def prohibit_surrogate_characters_def
      str_def)

lemma example_library_accepts:
  "username_validators example_auth_library rows (str ''newuser'') = []"
  "email_validators example_auth_library rows (str ''newuser@example.com'') = []"
  "validate_password example_auth_library (str ''SecurePass123!'') = []"
  "normalize_username example_auth_library v = v"
  "normalize_email example_auth_library v = v"
  by (simp_all add: example_auth_library_def str_def)

lemma example_register_padded:
  "register example_auth_library
     (example_registration ''newuser'' ''newuser@example.com'' '' SecurePass123!'' ''SecurePass123!'')
     example_db =
   (\<lparr>status = HTTP_201_CREATED,
     data = Fields [(''username'', str ''newuser''), (''email'', str ''newuser@example.com'')]\<rparr>,
    example_db\<lparr>users := users example_db @
        [\<lparr>user_id = Suc (user_seq example_db), username = str ''newuser'',
          email = str ''newuser@example.com'',
          password = make_password example_auth_library (str ''SecurePass123!''),
          first_name = [], last_name = []\<rparr>],
      user_seq := Suc (user_seq example_db)\<rparr>)"
proof -
  let ?d = "example_registration ''newuser'' ''newuser@example.com'' '' SecurePass123!''
      ''SecurePass123!''"
  have d: "data_username ?d = Parsed (str ''newuser'')"
    "data_email ?d = Parsed (str ''newuser@example.com'')"
    "data_password ?d = Parsed (str '' SecurePass123!'')"
    "data_password_confirm ?d = Parsed (str ''SecurePass123!'')"
    by (simp_all add: example_registration_def)
  have v: "registration_is_valid example_auth_library example_db ?d =
      Inr \<lparr>reg_username = strip (str ''newuser''), reg_email = strip (str ''newuser@example.com''),
           reg_password = strip (str '' SecurePass123!''),
           reg_password_confirm = strip (str ''SecurePass123!'')\<rparr>"
    by (rule registration_is_valid_accepts [OF d])
      (simp_all add: example_strips example_clean example_library_accepts example_users,
        simp_all add: str_def)
  show ?thesis
    using register_Inr [OF v]
    by (simp add: example_strips example_library_accepts example_users) (simp add: str_def)
qed

text \<open>
  C3, as stated, fails: a password with a leading space and a confirmation without it
  differ, and the registration is answered 201 and stores the hash of the password
  without the space.
\<close>

theorem register_contract_counterexample:
  "str '' SecurePass123!'' \<noteq> str ''SecurePass123!'' \<and>
   status (fst (register example_auth_library
     (example_registration ''newuser'' ''newuser@example.com'' '' SecurePass123!'' ''SecurePass123!'')
     example_db)) = HTTP_201_CREATED \<and>
   password (last (users (snd (register example_auth_library
     (example_registration ''newuser'' ''newuser@example.com'' '' SecurePass123!'' ''SecurePass123!'')
     example_db)))) = make_password example_auth_library (str ''SecurePass123!'')"
  unfolding example_register_padded by (simp add: str_def)


theorem register_contract_witness:
  "rejected (register example_auth_library
     (example_registration ''testuser'' ''different@example.com'' ''SecurePass123!'' ''SecurePass123!'')
     example_db) example_db \<and>
   rejected (register example_auth_library
     (example_registration ''newuser'' ''testuser@example.com'' ''SecurePass123!'' ''SecurePass123!'')
     example_db) example_db \<and>
   rejected (register example_auth_library
     (example_registration ''mismatchuser'' ''mismatch@example.com'' ''SecurePass123!''
        ''DifferentPass456!'')
     example_db) example_db \<and>
   rejected (register example_auth_library
     (example_registration ''shortpass'' ''short@example.com'' ''Short1!'' ''Short1!'')
     example_db) example_db \<and>
   status (fst (register example_auth_library
     (example_registration ''newuser'' ''newuser@example.com'' ''SecurePass123!'' ''SecurePass123!'')
     example_db)) = HTTP_201_CREATED \<and>
   password (last (users (snd (register example_auth_library
     (example_registration ''newuser'' ''newuser@example.com'' ''SecurePass123!'' ''SecurePass123!'')
     example_db)))) = make_password example_auth_library (str ''SecurePass123!'') \<and>
   data (fst (register example_auth_library
     (example_registration ''newuser'' ''newuser@example.com'' ''SecurePass123!'' ''SecurePass123!'')
     example_db)) =
     Fields [(''username'', str ''newuser''), (''email'', str ''newuser@example.com'')]"
proof -
  let ?ok = "example_registration ''newuser'' ''newuser@example.com'' ''SecurePass123!''
      ''SecurePass123!''"
  have a: "rejected (register example_auth_library
     (example_registration ''testuser'' ''different@example.com'' ''SecurePass123!'' ''SecurePass123!'')
     example_db) example_db"
    using register_contract [of
        "example_registration ''testuser'' ''different@example.com'' ''SecurePass123!'' ''SecurePass123!''"
        example_db example_auth_library]
    by (simp add: example_registration_def example_users example_strips)
  have b: "rejected (register example_auth_library
     (example_registration ''newuser'' ''testuser@example.com'' ''SecurePass123!'' ''SecurePass123!'')
     example_db) example_db"
    using register_contract [of
        "example_registration ''newuser'' ''testuser@example.com'' ''SecurePass123!'' ''SecurePass123!''"
        example_db example_auth_library]
    by (simp add: example_registration_def example_users example_strips)
  have "strip (str ''SecurePass123!'') \<noteq> strip (str ''DifferentPass456!'')"
    by (simp add: example_strips) (simp add: str_def)
  then have c: "rejected (register example_auth_library
     (example_registration ''mismatchuser'' ''mismatch@example.com'' ''SecurePass123!''
        ''DifferentPass456!'')
     example_db) example_db"
    using register_contract [of
        "example_registration ''mismatchuser'' ''mismatch@example.com'' ''SecurePass123!''
           ''DifferentPass456!''"
        example_db example_auth_library]
    by (simp add: example_registration_def)
  have "length (str ''Short1!'') < 8" by (simp add: str_def)
  then have d: "rejected (register example_auth_library
     (example_registration ''shortpass'' ''short@example.com'' ''Short1!'' ''Short1!'')
     example_db) example_db"
    using register_contract [of
        "example_registration ''shortpass'' ''short@example.com'' ''Short1!'' ''Short1!''"
        example_db example_auth_library]
    by (simp add: example_registration_def)
  have f: "data_username ?ok = Parsed (str ''newuser'')"
    "data_email ?ok = Parsed (str ''newuser@example.com'')"
    "data_password ?ok = Parsed (str ''SecurePass123!'')"
    "data_password_confirm ?ok = Parsed (str ''SecurePass123!'')"
    by (simp_all add: example_registration_def)
  have h: "str ''newuser'' \<noteq> []" "str ''newuser@example.com'' \<noteq> []"
    "8 \<le> length (str ''SecurePass123!'')"
    "str ''newuser'' \<notin> set (map username (users example_db))"
    "str ''newuser@example.com'' \<notin> set (map email (users example_db))"
    by (simp_all add: example_users) (simp_all add: str_def)
  note t = register_contract [of ?ok example_db example_auth_library]
  have e: "status (fst (register example_auth_library ?ok example_db)) = HTTP_201_CREATED"
    using t f h
    by (simp add: example_strips example_clean example_library_accepts)
  have "\<exists>n e p c. data_username ?ok = Parsed n \<and> data_email ?ok = Parsed e \<and>
         data_password ?ok = Parsed p \<and> data_password_confirm ?ok = Parsed c \<and>
         register example_auth_library ?ok example_db =
           (\<lparr>status = HTTP_201_CREATED,
             data = Fields [(''username'', normalize_username example_auth_library (strip n)),
                            (''email'', normalize_email example_auth_library (strip e))]\<rparr>,
            example_db\<lparr>users := users example_db @
                  [\<lparr>user_id = Suc (user_seq example_db),
                    username = normalize_username example_auth_library (strip n),
                    email = normalize_email example_auth_library (strip e),
                    password = make_password example_auth_library (strip p),
                    first_name = [], last_name = []\<rparr>],
                user_seq := Suc (user_seq example_db)\<rparr>)"
    using t e by blast
  then have g: "register example_auth_library ?ok example_db =
           (\<lparr>status = HTTP_201_CREATED,
             data = Fields [(''username'', str ''newuser''),
                            (''email'', str ''newuser@example.com'')]\<rparr>,
            example_db\<lparr>users := users example_db @
                  [\<lparr>user_id = Suc (user_seq example_db), username = str ''newuser'',
                    email = str ''newuser@example.com'',
                    password = make_password example_auth_library (str ''SecurePass123!''),
                    first_name = [], last_name = []\<rparr>],
                user_seq := Suc (user_seq example_db)\<rparr>)"
    unfolding f by (auto simp: example_strips example_library_accepts)
  have p: "password (last (users (snd (register example_auth_library ?ok example_db)))) =
      make_password example_auth_library (str ''SecurePass123!'')"
    unfolding g by simp
  have q: "data (fst (register example_auth_library ?ok example_db)) =
     Fields [(''username'', str ''newuser''), (''email'', str ''newuser@example.com'')]"
    unfolding g by simp
  show ?thesis using a b c d e p q by blast
qed

end
